theory Spec2Isabelle
  imports Complex_Main "HOL-Library.Word" "HOL-Library.Log_Nat" "HOL-Library.Sublist"
begin

section \<open>JavaScript strings\<close>

text \<open>
  A JavaScript string is a sequence of 16-bit code units. The source works on such
  strings with \<^verbatim>\<open>replace\<close>, \<^verbatim>\<open>trim\<close>, \<^verbatim>\<open>split\<close>, \<^verbatim>\<open>includes\<close>,
  \<^verbatim>\<open>startsWith\<close>, \<^verbatim>\<open>join\<close> and template literals; each is a function on code-unit
  lists here. \<open>str\<close> turns an ASCII literal into its code units.
\<close>

type_synonym js_string = "16 word list"

definition str :: "string \<Rightarrow> js_string" where
  "str s = map of_char s"

text \<open>
  \<^verbatim>\<open>String.prototype.trim\<close> removes the code units of the ECMAScript productions
  WhiteSpace and LineTerminator from both ends.
\<close>

definition isTrimSpace :: "16 word \<Rightarrow> bool" where
  "isTrimSpace c =
     (c = 0x0009 \<or> c = 0x000A \<or> c = 0x000B \<or> c = 0x000C \<or> c = 0x000D \<or> c = 0x0020 \<or>
      c = 0x00A0 \<or> c = 0x1680 \<or> (0x2000 \<le> c \<and> c \<le> 0x200A) \<or> c = 0x2028 \<or>
      c = 0x2029 \<or> c = 0x202F \<or> c = 0x205F \<or> c = 0x3000 \<or> c = 0xFEFF)"

definition trim :: "js_string \<Rightarrow> js_string" where
  "trim s = rev (dropWhile isTrimSpace (rev (dropWhile isTrimSpace s)))"

text \<open>\<^verbatim>\<open>s.split('\n')\<close>: the pieces between line feeds; the empty string gives one empty piece.\<close>

fun split_lines :: "js_string \<Rightarrow> js_string list" where
  "split_lines [] = [[]]"
| "split_lines (c # cs) =
     (if c = 0x000A then [] # split_lines cs
      else (case split_lines cs of
              [] \<Rightarrow> [[c]]
            | l # ls \<Rightarrow> (c # l) # ls))"

text \<open>\<^verbatim>\<open>xs.join(sep)\<close> on an array of strings.\<close>

fun join :: "js_string \<Rightarrow> js_string list \<Rightarrow> js_string" where
  "join sep [] = []"
| "join sep [x] = x"
| "join sep (x # y # ys) = x @ sep @ join sep (y # ys)"

text \<open>\<^verbatim>\<open>s.includes(':')\<close> and \<^verbatim>\<open>s.startsWith('{')\<close> with a one-character argument.\<close>

definition includes_char :: "js_string \<Rightarrow> 16 word \<Rightarrow> bool" where
  "includes_char s c = (c \<in> set s)"

definition startsWith_char :: "js_string \<Rightarrow> 16 word \<Rightarrow> bool" where
  "startsWith_char s c = (case s of [] \<Rightarrow> False | d # _ \<Rightarrow> d = c)"

text \<open>
  \<^verbatim>\<open>s.replace(/\n?/g, '')\<close>: the pattern matches one line feed where there is one and the
  empty string elsewhere, and every match is replaced by the empty string; what is
  left is the string without its line feeds.
\<close>

definition replace_newlines :: "js_string \<Rightarrow> js_string" where
  "replace_newlines s = filter (\<lambda>c. c \<noteq> 0x000A) s"

section \<open>JSON values and \<^verbatim>\<open>JSON.parse\<close>\<close>

text \<open>
  The values \<^verbatim>\<open>JSON.parse\<close> can return. A number is an IEEE double: a rational or an
  infinity (the literal \<^verbatim>\<open>1e999\<close> parses to \<^verbatim>\<open>Infinity\<close>); \<^verbatim>\<open>-0\<close> is identified with
  \<^verbatim>\<open>0\<close>, which the code cannot tell apart. An object keeps its members in source
  order; a later member of the same name overrides an earlier one.
\<close>

datatype js_number = Finite rat | PosInfinity | NegInfinity

datatype json =
    JNull
  | JBool bool
  | JNumber js_number
  | JString js_string
  | JArray "json list"
  | JObject "(js_string \<times> json) list"

datatype js_error = SyntaxError | TypeError

subsection \<open>Rounding a decimal literal to a double\<close>

definition ilog2 :: "rat \<Rightarrow> int" where
  \<comment> \<open>for \<open>0 < q\<close>: the \<open>e\<close> with \<open>2 ^ e \<le> q < 2 ^ (e + 1)\<close>\<close>
  "ilog2 q =
     (let (a, b) = quotient_of q; e = bitlen a - bitlen b
      in if e \<ge> 0
         then (if of_int a \<ge> of_int b * (2::rat) ^ nat e then e else e - 1)
         else (if of_int a * (2::rat) ^ nat (- e) \<ge> of_int b then e else e - 1))"

definition pow2 :: "int \<Rightarrow> rat" where
  "pow2 e = (if e \<ge> 0 then 2 ^ nat e else 1 / 2 ^ nat (- e))"

definition pow10 :: "int \<Rightarrow> rat" where
  "pow10 e = (if e \<ge> 0 then 10 ^ nat e else 1 / 10 ^ nat (- e))"

definition round_half_even :: "rat \<Rightarrow> int" where
  "round_half_even x =
     (let f = \<lfloor>x\<rfloor>; d = x - of_int f
      in if d < 1 / 2 then f
         else if d > 1 / 2 then f + 1
         else if even f then f else f + 1)"

definition to_double :: "rat \<Rightarrow> js_number" where
  \<comment> \<open>round to nearest, ties to even, with 53 bits and exponents from -1022 to 1023\<close>
  "to_double q =
     (if q = 0 then Finite 0
      else
        let a = \<bar>q\<bar>;
            e = max (ilog2 a) (- 1022);
            u = pow2 (e - 52);
            r = of_int (round_half_even (a / u)) * u
        in if r \<ge> pow2 1024 then (if q < 0 then NegInfinity else PosInfinity)
           else Finite (if q < 0 then - r else r))"

text \<open>
  For evaluation the powers are computed on integers, where the simplifier is fast.
\<close>

lemma pow2_int [code]:
  "pow2 e = (if e \<ge> 0 then of_int (2 ^ nat e) else 1 / of_int (2 ^ nat (- e)))"
  by (simp add: pow2_def)

lemma pow10_int [code]:
  "pow10 e = (if e \<ge> 0 then of_int (10 ^ nat e) else 1 / of_int (10 ^ nat (- e)))"
  by (simp add: pow10_def)

subsection \<open>Tokens\<close>

datatype token =
    TLBrace | TRBrace | TLBracket | TRBracket | TColon | TComma
  | TString js_string | TNumber js_number | TTrue | TFalse | TNull

definition isDigit :: "16 word \<Rightarrow> bool" where
  "isDigit c = (0x0030 \<le> c \<and> c \<le> 0x0039)"

definition digit_val :: "16 word \<Rightarrow> nat" where
  "digit_val c = unat c - 48"

definition digits_val :: "js_string \<Rightarrow> nat" where
  "digits_val ds = foldl (\<lambda>n c. 10 * n + digit_val c) 0 ds"

definition hex_val :: "16 word \<Rightarrow> nat option" where
  "hex_val c =
     (if 0x0030 \<le> c \<and> c \<le> 0x0039 then Some (unat c - 48)
      else if 0x0041 \<le> c \<and> c \<le> 0x0046 then Some (unat c - 55)
      else if 0x0061 \<le> c \<and> c \<le> 0x0066 then Some (unat c - 87)
      else None)"

definition hex4 :: "16 word \<Rightarrow> 16 word \<Rightarrow> 16 word \<Rightarrow> 16 word \<Rightarrow> 16 word option" where
  "hex4 a b c d =
     (case (hex_val a, hex_val b, hex_val c, hex_val d) of
        (Some w, Some x, Some y, Some z) \<Rightarrow> Some (of_nat (((w * 16 + x) * 16 + y) * 16 + z))
      | _ \<Rightarrow> None)"

definition escape_char :: "16 word \<Rightarrow> 16 word option" where
  \<comment> \<open>the single-character escapes of JSON\<close>
  "escape_char c =
     (if c = 0x0022 then Some 0x0022
      else if c = 0x005C then Some 0x005C
      else if c = 0x002F then Some 0x002F
      else if c = 0x0062 then Some 0x0008
      else if c = 0x0066 then Some 0x000C
      else if c = 0x006E then Some 0x000A
      else if c = 0x0072 then Some 0x000D
      else if c = 0x0074 then Some 0x0009
      else None)"

text \<open>
  An escape sequence after its backslash: the code unit it denotes and the input after
  it, or \<open>None\<close> for a bad escape.
\<close>

definition lex_escape :: "js_string \<Rightarrow> (16 word \<times> js_string) option" where
  "lex_escape cs =
     (case cs of
        [] \<Rightarrow> None
      | e # cs1 \<Rightarrow>
          if e = 0x0075 then
            (case cs1 of
               h1 # h2 # h3 # h4 # cs2 \<Rightarrow>
                 (case hex4 h1 h2 h3 h4 of None \<Rightarrow> None | Some u \<Rightarrow> Some (u, cs2))
             | _ \<Rightarrow> None)
          else
            (case escape_char e of None \<Rightarrow> None | Some u \<Rightarrow> Some (u, cs1)))"

lemma lex_escape_length:
  assumes "lex_escape cs = Some (u, r)"
  shows "length r < length cs"
proof (cases cs)
  case Nil
  with assms show ?thesis by (simp add: lex_escape_def)
next
  case (Cons e cs1)
  show ?thesis
  proof (cases "e = 0x0075")
    case True
    with assms Cons obtain h1 h2 h3 h4 where "cs1 = h1 # h2 # h3 # h4 # r"
      by (auto simp: lex_escape_def split: list.splits option.splits)
    with Cons show ?thesis by simp
  next
    case False
    with assms Cons have "r = cs1"
      by (auto simp: lex_escape_def split: option.splits)
    with Cons show ?thesis by simp
  qed
qed

text \<open>
  The characters of a string literal after its opening quote: the string (accumulated
  in reverse) and the input after the closing quote, or \<open>None\<close> for an unterminated
  string, a control character or a bad escape.
\<close>

function lex_string :: "js_string \<Rightarrow> js_string \<Rightarrow> (js_string \<times> js_string) option" where
  "lex_string acc [] = None"
| "lex_string acc (c # cs) =
     (if c = 0x0022 then Some (rev acc, cs)
      else if c = 0x005C then
        (case lex_escape cs of
           None \<Rightarrow> None
         | Some (u, r) \<Rightarrow> lex_string (u # acc) r)
      else if c < 0x0020 then None
      else lex_string (c # acc) cs)"
  by pat_completeness auto
termination
  by (relation "measure (\<lambda>(acc, cs). length cs)") (auto dest: lex_escape_length)

text \<open>
  A number literal: \<^verbatim>\<open>-? (0 | [1-9][0-9]*) (. [0-9]+)? ([eE] [+-]? [0-9]+)?\<close>, its value
  rounded to a double, and the input after it.
\<close>

definition lex_int_part :: "js_string \<Rightarrow> (js_string \<times> js_string) option" where
  "lex_int_part cs =
     (case cs of
        [] \<Rightarrow> None
      | c # r \<Rightarrow>
          if c = 0x0030 then Some ([c], r)
          else if isDigit c then Some (takeWhile isDigit cs, dropWhile isDigit cs)
          else None)"

definition lex_frac_part :: "js_string \<Rightarrow> (js_string \<times> js_string) option" where
  "lex_frac_part cs =
     (case cs of
        c # r \<Rightarrow>
          if c = 0x002E then
            (if takeWhile isDigit r = [] then None
             else Some (takeWhile isDigit r, dropWhile isDigit r))
          else Some ([], cs)
      | [] \<Rightarrow> Some ([], cs))"

definition lex_exp_digits :: "bool \<Rightarrow> js_string \<Rightarrow> (int \<times> js_string) option" where
  "lex_exp_digits neg cs =
     (if takeWhile isDigit cs = [] then None
      else Some ((if neg then - int (digits_val (takeWhile isDigit cs))
                  else int (digits_val (takeWhile isDigit cs))),
                 dropWhile isDigit cs))"

definition lex_exp_part :: "js_string \<Rightarrow> (int \<times> js_string) option" where
  "lex_exp_part cs =
     (case cs of
        c # r \<Rightarrow>
          if c = 0x0065 \<or> c = 0x0045 then
            (case r of
               s # r1 \<Rightarrow>
                 if s = 0x002B then lex_exp_digits False r1
                 else if s = 0x002D then lex_exp_digits True r1
                 else lex_exp_digits False r
             | [] \<Rightarrow> None)
          else Some (0, cs)
      | [] \<Rightarrow> Some (0, cs))"

definition lex_unsigned :: "bool \<Rightarrow> js_string \<Rightarrow> (js_number \<times> js_string) option" where
  "lex_unsigned neg cs =
     (case lex_int_part cs of
        None \<Rightarrow> None
      | Some (ds, cs1) \<Rightarrow>
          (case lex_frac_part cs1 of
             None \<Rightarrow> None
           | Some (fs, cs2) \<Rightarrow>
               (case lex_exp_part cs2 of
                  None \<Rightarrow> None
                | Some (ex, cs3) \<Rightarrow>
                    let q = of_int (int (digits_val (ds @ fs))) * pow10 (ex - int (length fs))
                    in Some (to_double (if neg then - q else q), cs3))))"

definition lex_number :: "js_string \<Rightarrow> (js_number \<times> js_string) option" where
  "lex_number cs =
     (case cs of
        [] \<Rightarrow> None
      | c # r \<Rightarrow> if c = 0x002D then lex_unsigned True r else lex_unsigned False cs)"

definition isJsonSpace :: "16 word \<Rightarrow> bool" where
  "isJsonSpace c = (c = 0x0009 \<or> c = 0x000A \<or> c = 0x000D \<or> c = 0x0020)"

text \<open>One token and the input after it; \<open>None\<close> where no token starts.\<close>

definition lex_token :: "16 word \<Rightarrow> js_string \<Rightarrow> (token \<times> js_string) option" where
  "lex_token c cs =
     (if c = 0x007B then Some (TLBrace, cs)
      else if c = 0x007D then Some (TRBrace, cs)
      else if c = 0x005B then Some (TLBracket, cs)
      else if c = 0x005D then Some (TRBracket, cs)
      else if c = 0x003A then Some (TColon, cs)
      else if c = 0x002C then Some (TComma, cs)
      else if c = 0x0022 then
        (case lex_string [] cs of
           None \<Rightarrow> None
         | Some (s, r) \<Rightarrow> Some (TString s, r))
      else if c = 0x002D \<or> isDigit c then
        (case lex_number (c # cs) of
           None \<Rightarrow> None
         | Some (n, r) \<Rightarrow> Some (TNumber n, r))
      else if take 4 (c # cs) = str ''true'' then Some (TTrue, drop 3 cs)
      else if take 5 (c # cs) = str ''false'' then Some (TFalse, drop 4 cs)
      else if take 4 (c # cs) = str ''null'' then Some (TNull, drop 3 cs)
      else None)"

text \<open>The token stream of a JSON text; \<open>None\<close> where some character starts no token.\<close>

lemma lex_string_length:
  "lex_string acc cs = Some (s, r) \<Longrightarrow> length r < length cs"
proof (induction acc cs rule: lex_string.induct)
  case (1 acc)
  then show ?case by simp
next
  case (2 acc c cs)
  show ?case
  proof (cases "c = 0x0022")
    case True
    with "2.prems" show ?thesis by simp
  next
    case notq: False
    show ?thesis
    proof (cases "c = 0x005C")
      case True
      with notq "2.prems" obtain u r0 where
        e: "lex_escape cs = Some (u, r0)" and l: "lex_string (u # acc) r0 = Some (s, r)"
        by (auto split: option.splits)
      from "2.IH"(1) [OF notq True e refl l] lex_escape_length [OF e]
      show ?thesis by simp
    next
      case False
      with notq "2.prems" have c: "\<not> c < 0x0020" and l: "lex_string (c # acc) cs = Some (s, r)"
        by (auto split: if_splits)
      from "2.IH"(2) [OF notq False c l] show ?thesis by simp
    qed
  qed
qed

lemma lex_int_part_length:
  "lex_int_part cs = Some (ds, r) \<Longrightarrow> length r < length cs"
proof (cases cs)
  case Nil
  assume "lex_int_part cs = Some (ds, r)"
  with Nil show ?thesis by (simp add: lex_int_part_def)
next
  case (Cons c t)
  assume h: "lex_int_part cs = Some (ds, r)"
  have "length (dropWhile isDigit t) \<le> length t"
    by (rule length_dropWhile_le)
  with h Cons show ?thesis
    by (auto simp: lex_int_part_def split: if_splits)
qed

lemma lex_frac_part_length:
  "lex_frac_part cs = Some (fs, r) \<Longrightarrow> length r \<le> length cs"
proof (cases cs)
  case Nil
  assume "lex_frac_part cs = Some (fs, r)"
  with Nil show ?thesis by (simp add: lex_frac_part_def)
next
  case (Cons c t)
  assume h: "lex_frac_part cs = Some (fs, r)"
  have "length (dropWhile isDigit t) \<le> length t"
    by (rule length_dropWhile_le)
  with h Cons show ?thesis
    by (auto simp: lex_frac_part_def split: if_splits)
qed

lemma lex_exp_digits_length:
  "lex_exp_digits neg cs = Some (ex, r) \<Longrightarrow> length r \<le> length cs"
  by (auto simp: lex_exp_digits_def length_dropWhile_le split: if_splits)

lemma lex_exp_part_length:
  "lex_exp_part cs = Some (ex, r) \<Longrightarrow> length r \<le> length cs"
  by (cases cs)
     (auto simp: lex_exp_part_def split: if_splits list.splits
           dest!: lex_exp_digits_length)

lemma lex_unsigned_length:
  assumes "lex_unsigned neg cs = Some (n, r)"
  shows "length r < length cs"
proof -
  from assms obtain ds cs1 fs cs2 ex where
    a: "lex_int_part cs = Some (ds, cs1)" and
    b: "lex_frac_part cs1 = Some (fs, cs2)" and
    c: "lex_exp_part cs2 = Some (ex, r)"
    by (auto simp: lex_unsigned_def Let_def split: option.splits)
  from lex_int_part_length [OF a] lex_frac_part_length [OF b] lex_exp_part_length [OF c]
  show ?thesis by simp
qed

lemma lex_number_length:
  assumes "lex_number cs = Some (n, r)"
  shows "length r < length cs"
proof (cases cs)
  case Nil
  with assms show ?thesis by (simp add: lex_number_def)
next
  case (Cons c t)
  show ?thesis
  proof (cases "c = 0x002D")
    case True
    with assms Cons have "lex_unsigned True t = Some (n, r)"
      by (simp add: lex_number_def)
    from lex_unsigned_length [OF this] Cons show ?thesis by simp
  next
    case False
    with assms Cons have "lex_unsigned False cs = Some (n, r)"
      by (simp add: lex_number_def)
    from lex_unsigned_length [OF this] show ?thesis .
  qed
qed

lemma lex_token_length:
  assumes "lex_token c cs = Some (t, r)"
  shows "length r \<le> length cs"
proof -
  consider
      (same) "r = cs"
    | (string) s where "lex_string [] cs = Some (s, r)"
    | (number) n where "lex_number (c # cs) = Some (n, r)"
    | (word3) "r = drop 3 cs"
    | (word4) "r = drop 4 cs"
    using assms unfolding lex_token_def
    by (simp split: if_splits option.splits prod.splits)
  then show ?thesis
  proof cases
    case same
    then show ?thesis by simp
  next
    case string
    from lex_string_length [OF this] show ?thesis by simp
  next
    case number
    from lex_number_length [OF this] show ?thesis by simp
  next
    case word3
    then show ?thesis by simp
  next
    case word4
    then show ?thesis by simp
  qed
qed

function lex :: "js_string \<Rightarrow> token list option" where
  "lex [] = Some []"
| "lex (c # cs) =
     (if isJsonSpace c then lex cs
      else (case lex_token c cs of
              None \<Rightarrow> None
            | Some (t, r) \<Rightarrow>
                (case lex r of
                   None \<Rightarrow> None
                 | Some ts \<Rightarrow> Some (t # ts))))"
  by pat_completeness auto
termination
  by (relation "measure length") (auto dest: lex_token_length)

subsection \<open>The grammar, as a pushdown automaton over the tokens\<close>

text \<open>
  A frame is an array or an object under construction (members in reverse, and for an
  object the name that waits for its value).
\<close>

datatype frame =
    FArray "json list"
  | FObject "(js_string \<times> json) list" "js_string option"

datatype expect = EValue | EValueOrClose | EKeyOrClose | EKey | EColon | ECommaOrClose

datatype pstate = Running expect "frame list" | Done json

fun deliver :: "json \<Rightarrow> frame list \<Rightarrow> pstate option" where
  "deliver v [] = Some (Done v)"
| "deliver v (FArray vs # st) = Some (Running ECommaOrClose (FArray (v # vs) # st))"
| "deliver v (FObject kvs (Some k) # st) =
     Some (Running ECommaOrClose (FObject ((k, v) # kvs) None # st))"
| "deliver v (FObject kvs None # st) = None"

fun value_start :: "token \<Rightarrow> frame list \<Rightarrow> pstate option" where
  "value_start TLBracket st = Some (Running EValueOrClose (FArray [] # st))"
| "value_start TLBrace st = Some (Running EKeyOrClose (FObject [] None # st))"
| "value_start (TString s) st = deliver (JString s) st"
| "value_start (TNumber n) st = deliver (JNumber n) st"
| "value_start TTrue st = deliver (JBool True) st"
| "value_start TFalse st = deliver (JBool False) st"
| "value_start TNull st = deliver JNull st"
| "value_start _ st = None"

fun close_array :: "frame list \<Rightarrow> pstate option" where
  "close_array (FArray vs # st) = deliver (JArray (rev vs)) st"
| "close_array _ = None"

fun close_object :: "frame list \<Rightarrow> pstate option" where
  "close_object (FObject kvs None # st) = deliver (JObject (rev kvs)) st"
| "close_object _ = None"

fun set_key :: "js_string \<Rightarrow> frame list \<Rightarrow> pstate option" where
  "set_key k (FObject kvs None # st) = Some (Running EColon (FObject kvs (Some k) # st))"
| "set_key k _ = None"

fun after_comma :: "frame list \<Rightarrow> pstate option" where
  "after_comma (FArray vs # st) = Some (Running EValue (FArray vs # st))"
| "after_comma (FObject kvs k # st) = Some (Running EKey (FObject kvs k # st))"
| "after_comma [] = None"

fun step :: "pstate \<Rightarrow> token \<Rightarrow> pstate option" where
  "step (Done v) t = None"
| "step (Running EValue st) t = value_start t st"
| "step (Running EValueOrClose st) t =
     (if t = TRBracket then close_array st else value_start t st)"
| "step (Running EKeyOrClose st) t =
     (case t of TRBrace \<Rightarrow> close_object st | TString k \<Rightarrow> set_key k st | _ \<Rightarrow> None)"
| "step (Running EKey st) t = (case t of TString k \<Rightarrow> set_key k st | _ \<Rightarrow> None)"
| "step (Running EColon st) t = (if t = TColon then Some (Running EValue st) else None)"
| "step (Running ECommaOrClose st) t =
     (case t of
        TComma \<Rightarrow> after_comma st
      | TRBracket \<Rightarrow> close_array st
      | TRBrace \<Rightarrow> close_object st
      | _ \<Rightarrow> None)"

fun run :: "pstate \<Rightarrow> token list \<Rightarrow> json option" where
  "run (Done v) [] = Some v"
| "run (Running e st) [] = None"
| "run s (t # ts) = (case step s t of None \<Rightarrow> None | Some s' \<Rightarrow> run s' ts)"

text \<open>
  \<^verbatim>\<open>JSON.parse(text)\<close>: the value of a JSON text, or the \<^verbatim>\<open>SyntaxError\<close> it throws.
\<close>

definition JSON_parse :: "js_string \<Rightarrow> js_error + json" where
  "JSON_parse s =
     (case lex s of
        None \<Rightarrow> Inl SyntaxError
      | Some ts \<Rightarrow>
          (case run (Running EValue []) ts of
             None \<Rightarrow> Inl SyntaxError
           | Some v \<Rightarrow> Inr v))"

section \<open>The suggestion parser: \<^verbatim>\<open>GeminiClient.parseResponse\<close>\<close>

text \<open>
  \<^verbatim>\<open>CommitSuggestion\<close>. The interface declares \<^verbatim>\<open>message: string\<close>,
  \<^verbatim>\<open>confidence: number\<close> and \<^verbatim>\<open>reasoning: string\<close>, but \<^verbatim>\<open>parseResponse\<close> fills the
  fields from values of type \<^verbatim>\<open>any\<close>, so at run time each field holds whatever JSON
  value the response had there.
\<close>

record CommitSuggestion =
  message :: json
  confidence :: json
  reasoning :: json

text \<open>\<^verbatim>\<open>ToBoolean\<close> on a JSON value.\<close>

fun truthy :: "json \<Rightarrow> bool" where
  "truthy JNull = False"
| "truthy (JBool b) = b"
| "truthy (JNumber n) = (n \<noteq> Finite 0)"
| "truthy (JString s) = (s \<noteq> [])"
| "truthy (JArray vs) = True"
| "truthy (JObject kvs) = True"

text \<open>
  The property read \<^verbatim>\<open>v.name\<close>, for the four names the code reads (\<^verbatim>\<open>suggestions\<close>,
  \<^verbatim>\<open>message\<close>, \<^verbatim>\<open>confidence\<close>, \<^verbatim>\<open>reasoning\<close>). On \<^verbatim>\<open>null\<close> it throws a
  \<^verbatim>\<open>TypeError\<close>. On an object it is the member of that name, the last one if the text
  had several, or \<^verbatim>\<open>undefined\<close> (\<open>None\<close>). On a boolean, number, string or array it is
  \<^verbatim>\<open>undefined\<close>, as no built-in prototype defines these names.
\<close>

fun member_of :: "json \<Rightarrow> js_string \<Rightarrow> json option" where
  "member_of (JObject kvs) k = map_of (rev kvs) k"
| "member_of _ k = None"

definition get_property :: "json \<Rightarrow> js_string \<Rightarrow> js_error + json option" where
  "get_property v k = (if v = JNull then Inl TypeError else Inr (member_of v k))"

text \<open>\<^verbatim>\<open>v || d\<close>, where \<^verbatim>\<open>undefined\<close> is falsy.\<close>

definition js_or :: "json option \<Rightarrow> json \<Rightarrow> json" where
  "js_or v d = (case v of None \<Rightarrow> d | Some x \<Rightarrow> if truthy x then x else d)"

definition truthy_opt :: "json option \<Rightarrow> bool" where
  "truthy_opt v = (case v of None \<Rightarrow> False | Some x \<Rightarrow> truthy x)"

definition isArray :: "json option \<Rightarrow> bool" where
  "isArray v = (case v of Some (JArray vs) \<Rightarrow> True | _ \<Rightarrow> False)"

definition array_elements :: "json option \<Rightarrow> json list" where
  "array_elements v = (case v of Some (JArray vs) \<Rightarrow> vs | _ \<Rightarrow> [])"

text \<open>The callback of \<^verbatim>\<open>parsed.suggestions.map\<close> (lines 116 to 120).\<close>

definition toSuggestion :: "json \<Rightarrow> js_error + CommitSuggestion" where
  "toSuggestion suggestion =
     (case get_property suggestion (str ''message'') of
        Inl e \<Rightarrow> Inl e
      | Inr m \<Rightarrow>
          (case get_property suggestion (str ''confidence'') of
             Inl e \<Rightarrow> Inl e
           | Inr c \<Rightarrow>
               (case get_property suggestion (str ''reasoning'') of
                  Inl e \<Rightarrow> Inl e
                | Inr r \<Rightarrow>
                    Inr \<lparr>message = js_or m (JString []),
                         confidence = js_or c (JNumber (Finite 50)),
                         reasoning = js_or r (JString (str ''No reasoning provided''))\<rparr>)))"

text \<open>\<^verbatim>\<open>Array.prototype.map\<close> with a callback that may throw: the first throw ends it.\<close>

fun map_throw :: "('a \<Rightarrow> js_error + 'b) \<Rightarrow> 'a list \<Rightarrow> js_error + 'b list" where
  "map_throw f [] = Inr []"
| "map_throw f (x # xs) =
     (case f x of
        Inl e \<Rightarrow> Inl e
      | Inr y \<Rightarrow> (case map_throw f xs of Inl e \<Rightarrow> Inl e | Inr ys \<Rightarrow> Inr (y # ys)))"

text \<open>Lines 108 to 111: both \<^verbatim>\<open>replace\<close> calls, then \<^verbatim>\<open>trim\<close>.\<close>

definition cleanResponse :: "js_string \<Rightarrow> js_string" where
  "cleanResponse response = trim (replace_newlines (replace_newlines response))"

text \<open>
  The body of the \<^verbatim>\<open>try\<close> block (lines 107 to 121): \<open>Inl e\<close> when it throws \<open>e\<close>,
  \<open>Inr (Some ss)\<close> when it returns \<open>ss\<close>, \<open>Inr None\<close> when the \<^verbatim>\<open>if\<close> fails and control
  leaves the block at its end.
\<close>

definition try_block :: "js_string \<Rightarrow> js_error + CommitSuggestion list option" where
  "try_block response =
     (case JSON_parse (cleanResponse response) of
        Inl e \<Rightarrow> Inl e
      | Inr parsed \<Rightarrow>
          (case get_property parsed (str ''suggestions'') of
             Inl e \<Rightarrow> Inl e
           | Inr sv \<Rightarrow>
               if truthy_opt sv \<and> isArray sv then
                 (case map_throw toSuggestion (array_elements sv) of
                    Inl e \<Rightarrow> Inl e
                  | Inr ss \<Rightarrow> Inr (Some ss))
               else Inr None))"

text \<open>Lines 127 to 140: the fallback.\<close>

definition nonblank :: "js_string \<Rightarrow> bool" where
  "nonblank line = (trim line \<noteq> [])"

definition is_candidate :: "js_string \<Rightarrow> bool" where
  "is_candidate line =
     (includes_char line 0x003A \<and> \<not> startsWith_char line 0x007B \<and> \<not> startsWith_char line 0x007D)"

definition extracted :: "js_string \<Rightarrow> CommitSuggestion" where
  "extracted line =
     \<lparr>message = JString (trim line),
      confidence = JNumber (Finite 70),
      reasoning = JString (str ''Extracted from AI response'')\<rparr>"

fun push_candidates :: "CommitSuggestion list \<Rightarrow> js_string list \<Rightarrow> CommitSuggestion list" where
  "push_candidates suggestions [] = suggestions"
| "push_candidates suggestions (line # lines) =
     (if is_candidate line then push_candidates (suggestions @ [extracted line]) lines
      else push_candidates suggestions lines)"

definition fallback :: "js_string \<Rightarrow> CommitSuggestion list" where
  "fallback response =
     take 3 (push_candidates [] (filter nonblank (split_lines response)))"

text \<open>
  \<^verbatim>\<open>parseResponse\<close>: what it returns (\<open>Inr\<close>) or throws (\<open>Inl\<close>). The \<^verbatim>\<open>catch\<close> clause
  logs a warning and goes on to the fallback.
\<close>

definition parseResponse :: "js_string \<Rightarrow> js_error + CommitSuggestion list" where
  "parseResponse response =
     (case try_block response of
        Inr (Some ss) \<Rightarrow> Inr ss
      | Inr None \<Rightarrow> Inr (fallback response)
      | Inl e \<Rightarrow> Inr (fallback response))"

section \<open>The change summarizer: \<^verbatim>\<open>GeminiClient.buildPrompt\<close>\<close>

datatype status = added | modified | deleted | renamed

subsection \<open>Printing a Number\<close>

text \<open>
  A template literal prints a Number with \<^verbatim>\<open>Number::toString\<close>: the shortest decimal
  \<open>s \<times> 10 ^ (n - k)\<close>, of \<open>k\<close> digits \<open>s\<close>, that rounds to the Number (the closest one
  where several are as short), written plainly for \<open>n\<close> from \<open>-5\<close> to \<open>21\<close> and with
  an exponent otherwise. A Number is a double, an infinity or \<^verbatim>\<open>NaN\<close>; a rational
  stands for the double it rounds to.
\<close>

datatype number = Double js_number | NaN

text \<open>The decimal digits of an integer that is not negative, and their number.\<close>

function decimal :: "int \<Rightarrow> js_string" where
  "decimal n =
     (if n < 10 then [of_int (48 + n)]
      else decimal (n div 10) @ [of_int (48 + n mod 10)])"
  by pat_completeness auto
termination
  by (relation "measure nat") auto

function digit_count :: "int \<Rightarrow> int" where
  "digit_count n = (if n < 10 then 1 else 1 + digit_count (n div 10))"
  by pat_completeness auto
termination
  by (relation "measure nat") auto

definition ilog10 :: "rat \<Rightarrow> int" where
  \<comment> \<open>for \<open>0 < q\<close>: the \<open>e\<close> with \<open>10 ^ e \<le> q < 10 ^ (e + 1)\<close>\<close>
  "ilog10 q =
     (let (a, b) = quotient_of q;
          e = digit_count a - digit_count b
      in if pow10 e \<le> q then e else e - 1)"

definition round_trips :: "rat \<Rightarrow> nat \<Rightarrow> int \<times> int \<Rightarrow> bool" where
  \<comment> \<open>\<open>s\<close> has \<open>k\<close> digits and \<open>s \<times> 10 ^ (n - k)\<close> rounds to the double \<open>x\<close>\<close>
  "round_trips x k c =
     (case c of (n, s) \<Rightarrow>
        if 10 ^ (k - 1) \<le> s \<and> s < 10 ^ k
        then to_double (of_int s * pow10 (n - int k)) = Finite x
        else False)"

definition candidates :: "rat \<Rightarrow> int \<Rightarrow> nat \<Rightarrow> (int \<times> int) list" where
  \<comment> \<open>the decimals of \<open>k\<close> digits next to \<open>x\<close>, where \<open>10 ^ (n0 - 1) \<le> x < 10 ^ n0\<close>\<close>
  "candidates x n0 k =
     filter (round_trips x k)
       [(n0, \<lfloor>x / pow10 (n0 - int k)\<rfloor>),
        (n0, \<lfloor>x / pow10 (n0 - int k)\<rfloor> + 1),
        (n0 + 1, \<lfloor>x / pow10 (n0 + 1 - int k)\<rfloor>),
        (n0 + 1, \<lfloor>x / pow10 (n0 + 1 - int k)\<rfloor> + 1)]"

definition distance :: "rat \<Rightarrow> nat \<Rightarrow> int \<times> int \<Rightarrow> rat" where
  "distance x k c = (case c of (n, s) \<Rightarrow> \<bar>of_int s * pow10 (n - int k) - x\<bar>)"

definition closer :: "rat \<Rightarrow> nat \<Rightarrow> int \<times> int \<Rightarrow> int \<times> int \<Rightarrow> int \<times> int" where
  \<comment> \<open>the closer of two decimals, the one with even \<open>s\<close> at equal distance\<close>
  "closer x k c d =
     (if distance x k d < distance x k c then d
      else if distance x k d = distance x k c \<and> even (snd d) then d
      else c)"

definition closest :: "rat \<Rightarrow> nat \<Rightarrow> (int \<times> int) list \<Rightarrow> int \<times> int" where
  "closest x k cs = (case cs of [] \<Rightarrow> (0, 0) | c # ds \<Rightarrow> foldl (closer x k) c ds)"

definition shortest_digits :: "rat \<Rightarrow> int \<times> nat \<times> int" where
  \<comment> \<open>\<open>(n, k, s)\<close> for a double \<open>0 < x\<close>; seventeen digits always round back\<close>
  "shortest_digits x =
     (let n0 = ilog10 x + 1
      in case List.find (\<lambda>k. candidates x n0 k \<noteq> []) [1..<17] of
           Some k \<Rightarrow> (case closest x k (candidates x n0 k) of (n, s) \<Rightarrow> (n, k, s))
         | None \<Rightarrow> (n0, 17, round_half_even (x / pow10 (n0 - 17))))"

definition format_digits :: "int \<times> nat \<times> int \<Rightarrow> js_string" where
  "format_digits t =
     (case t of (n, k, s) \<Rightarrow>
        if int k \<le> n \<and> n \<le> 21 then
          decimal s @ replicate (nat (n - int k)) 0x0030
        else if 0 < n \<and> n \<le> 21 then
          take (nat n) (decimal s) @ [0x002E] @ drop (nat n) (decimal s)
        else if - 6 < n \<and> n \<le> 0 then
          str ''0.'' @ replicate (nat (- n)) 0x0030 @ decimal s
        else if k = 1 then
          decimal s @ [0x0065, if n - 1 < 0 then 0x002D else 0x002B] @
          decimal \<bar>n - 1\<bar>
        else
          take 1 (decimal s) @ [0x002E] @ drop 1 (decimal s) @
          [0x0065, if n - 1 < 0 then 0x002D else 0x002B] @ decimal \<bar>n - 1\<bar>)"

definition print_double :: "js_number \<Rightarrow> js_string" where
  "print_double d =
     (case d of
        PosInfinity \<Rightarrow> str ''Infinity''
      | NegInfinity \<Rightarrow> str ''-Infinity''
      | Finite x \<Rightarrow>
          if x = 0 then str ''0''
          else if x < 0 then [0x002D] @ format_digits (shortest_digits (- x))
          else format_digits (shortest_digits x))"

fun Number_toString :: "number \<Rightarrow> js_string" where
  "Number_toString NaN = str ''NaN''"
| "Number_toString (Double PosInfinity) = str ''Infinity''"
| "Number_toString (Double NegInfinity) = str ''-Infinity''"
| "Number_toString (Double (Finite q)) = print_double (to_double q)"

subsection \<open>The prompt\<close>

text \<open>
  \<^verbatim>\<open>GitDiff\<close> and \<^verbatim>\<open>Config\<close>. The fields \<^verbatim>\<open>additions\<close>, \<^verbatim>\<open>deletions\<close> and
  \<^verbatim>\<open>maxLength\<close> are of type \<^verbatim>\<open>number\<close>; the template literals print them with
  \<^verbatim>\<open>Number::toString\<close>.
\<close>

record GitDiff =
  "file" :: js_string
  additions :: number
  deletions :: number
  changes :: "js_string list"
  status :: status

record Config =
  geminiApiKey :: js_string
  conventionalCommits :: bool
  maxLength :: number
  includeBody :: bool
  customPrompt :: "js_string option"

fun status_string :: "status \<Rightarrow> js_string" where
  "status_string added = str ''added''"
| "status_string modified = str ''modified''"
| "status_string deleted = str ''deleted''"
| "status_string renamed = str ''renamed''"

text \<open>
  The callback of \<^verbatim>\<open>diffs.map\<close> (lines 38 to 47). The parameter \<^verbatim>\<open>diffs\<close> is
  written \<open>gitDiffs\<close> below, as \<open>diffs\<close> is a constant of the library.
\<close>

definition stats :: "GitDiff \<Rightarrow> js_string" where
  "stats diff =
     str ''(+'' @ Number_toString (additions diff) @ str ''/-'' @ Number_toString (deletions diff) @ str '')''"

definition describeChange :: "GitDiff \<Rightarrow> js_string" where
  "describeChange diff =
     str ''File: '' @ file diff @ str '' '' @ stats diff @ str ''\<newline>'' @
     str ''Status: '' @ status_string (status diff) @ str ''\<newline>'' @
     str ''Key changes:\<newline>'' @
     str ''  '' @ join (str ''\<newline>  '') (take 5 (changes diff))"

definition changesDescription :: "GitDiff list \<Rightarrow> js_string" where
  "changesDescription gitDiffs = join (str ''\<newline>\<newline>'') (map describeChange gitDiffs)"

text \<open>Lines 49 to 51.\<close>

definition recentCommitsContext :: "js_string list \<Rightarrow> js_string" where
  "recentCommitsContext recentCommits =
     (if length recentCommits > 0
      then str ''Recent commits for context:\<newline>'' @
           join (str ''\<newline>'') (map (\<lambda>c. str ''- '' @ c) (take 5 recentCommits)) @
           str ''\<newline>\<newline>''
      else [])"

text \<open>The fixed text of the template literal of lines 53 to 102, between its holes.\<close>

definition prompt_intro :: js_string where
  \<open>prompt_intro =
     str ''You are an expert developer assistant that generates high-quality git commit messages.\<newline>'' @
     str ''\<newline>'' @
     str ''CONTEXT:\<newline>'' @
     str ''Branch: ''\<close>

definition prompt_after_branch :: js_string where
  \<open>prompt_after_branch =
     str ''\<newline>''\<close>

definition prompt_changes_heading :: js_string where
  \<open>prompt_changes_heading =
     str ''\<newline>'' @
     str ''\<newline>'' @
     str ''CHANGES TO COMMIT:\<newline>''\<close>

definition prompt_requirements_heading :: js_string where
  \<open>prompt_requirements_heading =
     str ''\<newline>'' @
     str ''\<newline>'' @
     str ''REQUIREMENTS:\<newline>''\<close>

definition prompt_max_length :: js_string where
  \<open>prompt_max_length =
     str ''\<newline>'' @
     str ''- Maximum length: ''\<close>

definition prompt_style_rules :: js_string where
  \<open>prompt_style_rules =
     str '' characters\<newline>'' @
     str ''- Be specific about what changed and why\<newline>'' @
     str ''- Use present tense ("add" not "added")\<newline>'' @
     str ''- Start with lowercase unless it'' @
     [0x0027] @
     str ''s a proper noun\<newline>''\<close>

definition prompt_types_and_format :: js_string where
  \<open>prompt_types_and_format =
     str ''\<newline>'' @
     str ''\<newline>'' @
     str ''COMMIT TYPES (if using conventional commits):\<newline>'' @
     str ''- feat: new feature\<newline>'' @
     str ''- fix: bug fix\<newline>'' @
     str ''- docs: documentation changes\<newline>'' @
     str ''- style: formatting, missing semicolons, etc.\<newline>'' @
     str ''- refactor: code restructuring without changing functionality\<newline>'' @
     str ''- test: adding or updating tests\<newline>'' @
     str ''- chore: maintenance tasks, dependencies, build process\<newline>'' @
     str ''\<newline>'' @
     str ''Generate 3 different commit message suggestions, ranked by quality.\<newline>'' @
     str ''Format your response as JSON:\<newline>'' @
     str ''\<newline>'' @
     str ''{\<newline>'' @
     str ''  "suggestions": [\<newline>'' @
     str ''    {\<newline>'' @
     str ''      "message": "commit message here",\<newline>'' @
     str ''      "confidence": 95,\<newline>'' @
     str ''      "reasoning": "why this message is good"\<newline>'' @
     str ''    },\<newline>'' @
     str ''    {\<newline>'' @
     str ''      "message": "alternative message",\<newline>'' @
     str ''      "confidence": 85,\<newline>'' @
     str ''      "reasoning": "explanation for this option"\<newline>'' @
     str ''    },\<newline>'' @
     str ''    {\<newline>'' @
     str ''      "message": "third option",\<newline>'' @
     str ''      "confidence": 75,\<newline>'' @
     str ''      "reasoning": "why this could work"\<newline>'' @
     str ''    }\<newline>'' @
     str ''  ]\<newline>'' @
     str ''}\<newline>'' @
     str ''\<newline>''\<close>

definition conventionalRule :: "bool \<Rightarrow> js_string" where
  "conventionalRule b =
     (if b then str ''- Use Conventional Commits format (type(scope): description)''
      else str ''- Use clear, descriptive commit messages'')"

definition bodyRule :: "bool \<Rightarrow> js_string" where
  "bodyRule b =
     (if b then str ''- Include a body if the change is complex''
      else str ''- Keep it concise, no body needed'')"

text \<open>An absent or empty \<^verbatim>\<open>customPrompt\<close> is falsy.\<close>

definition additionalInstructions :: "js_string option \<Rightarrow> js_string" where
  "additionalInstructions p =
     (case p of
        None \<Rightarrow> []
      | Some c \<Rightarrow>
          if c \<noteq> [] then str ''\<newline>ADDITIONAL INSTRUCTIONS:\<newline>'' @ c else [])"

definition buildPrompt :: "GitDiff list \<Rightarrow> Config \<Rightarrow> js_string list \<Rightarrow> js_string \<Rightarrow> js_string" where
  "buildPrompt gitDiffs config recentCommits branchName =
     prompt_intro @ branchName @
     prompt_after_branch @ recentCommitsContext recentCommits @
     prompt_changes_heading @ changesDescription gitDiffs @
     prompt_requirements_heading @ conventionalRule (conventionalCommits config) @
     prompt_max_length @ Number_toString (maxLength config) @
     prompt_style_rules @ bodyRule (includeBody config) @
     prompt_types_and_format @ additionalInstructions (customPrompt config)"

section \<open>What the two functions compute\<close>

text \<open>
  The \<^verbatim>\<open>map\<close> callback on an element that is not \<^verbatim>\<open>null\<close>, where no property read
  throws.
\<close>

definition suggestion_of :: "json \<Rightarrow> CommitSuggestion" where
  "suggestion_of e =
     \<lparr>message = js_or (member_of e (str ''message'')) (JString []),
      confidence = js_or (member_of e (str ''confidence'')) (JNumber (Finite 50)),
      reasoning = js_or (member_of e (str ''reasoning'')) (JString (str ''No reasoning provided''))\<rparr>"

text \<open>
  What \<^verbatim>\<open>buildPrompt\<close> appends after the heading of the changes: the part of the
  template from the hole of \<^verbatim>\<open>changesDescription\<close> on.
\<close>

definition prompt_rest :: "GitDiff list \<Rightarrow> Config \<Rightarrow> js_string" where
  "prompt_rest gitDiffs config =
     changesDescription gitDiffs @
     prompt_requirements_heading @ conventionalRule (conventionalCommits config) @
     prompt_max_length @ Number_toString (maxLength config) @
     prompt_style_rules @ bodyRule (includeBody config) @
     prompt_types_and_format @ additionalInstructions (customPrompt config)"

text \<open>Arguments for examples: a diff with seven change lines, a config, six commits.\<close>

definition example_diff :: GitDiff where
  "example_diff =
     \<lparr>file = str ''src/a.ts'', additions = Double (Finite 12), deletions = Double (Finite 3),
      changes = [str ''+1'', str ''+2'', str ''+3'', str ''+4'', str ''+5'', str ''+6'', str ''+7''],
      status = modified\<rparr>"

definition example_config :: Config where
  "example_config =
     \<lparr>geminiApiKey = str ''key'', conventionalCommits = True,
      maxLength = Double (Finite 72),
      includeBody = False, customPrompt = None\<rparr>"

definition example_commits :: "js_string list" where
  "example_commits =
     [str ''one'', str ''two'', str ''three'', str ''four'', str ''five'', str ''six'']"

text \<open>
  The mapping as the specification words it, with a default only for a member that
  is missing; the parser is compared with it below.
\<close>

definition default_when_missing :: "json option \<Rightarrow> json \<Rightarrow> json" where
  "default_when_missing v d = (case v of None \<Rightarrow> d | Some x \<Rightarrow> x)"

definition claimed_suggestion :: "json \<Rightarrow> CommitSuggestion" where
  "claimed_suggestion e =
     \<lparr>message = default_when_missing (member_of e (str ''message'')) (JString []),
      confidence = default_when_missing (member_of e (str ''confidence'')) (JNumber (Finite 50)),
      reasoning =
        default_when_missing (member_of e (str ''reasoning''))
          (JString (str ''No reasoning provided''))\<rparr>"

text \<open>
  The fallback list as the specification words it in its extraction step, one
  suggestion per line that is kept, before any truncation.
\<close>

definition claimed_fallback :: "js_string \<Rightarrow> CommitSuggestion list" where
  "claimed_fallback response =
     map extracted (filter is_candidate (filter nonblank (split_lines response)))"

text \<open>
  A suggestion as the data model of the specification has it: a non-empty string as
  message and an integer from 0 to 100 as confidence.
\<close>

fun nonempty_string :: "json \<Rightarrow> bool" where
  "nonempty_string (JString m) = (m \<noteq> [])"
| "nonempty_string _ = False"

fun percent_int :: "json \<Rightarrow> bool" where
  "percent_int (JNumber (Finite q)) = (q = of_int \<lfloor>q\<rfloor> \<and> 0 \<le> q \<and> q \<le> 100)"
| "percent_int _ = False"

definition valid_suggestion :: "CommitSuggestion \<Rightarrow> bool" where
  "valid_suggestion s = (nonempty_string (message s) \<and> percent_int (confidence s))"

text \<open>A Markdown fence: three grave accents.\<close>

definition fence :: js_string where
  "fence = [0x0060, 0x0060, 0x0060]"

subsection \<open>The parser without its control flow\<close>

lemma toSuggestion_eq:
  "toSuggestion e = (if e = JNull then Inl TypeError else Inr (suggestion_of e))"
  by (simp add: toSuggestion_def get_property_def suggestion_of_def)

lemma map_throw_toSuggestion:
  "map_throw toSuggestion es =
     (if JNull \<in> set es then Inl TypeError else Inr (map suggestion_of es))"
  by (induction es) (auto simp: toSuggestion_eq)

lemma try_block_cases:
  "try_block response =
     (case JSON_parse (cleanResponse response) of
        Inl e \<Rightarrow> Inl e
      | Inr parsed \<Rightarrow>
          if parsed = JNull then Inl TypeError
          else (case member_of parsed (str ''suggestions'') of
                  Some (JArray es) \<Rightarrow>
                    if JNull \<in> set es then Inl TypeError else Inr (Some (map suggestion_of es))
                | _ \<Rightarrow> Inr None))"
  by (auto simp: try_block_def get_property_def map_throw_toSuggestion truthy_opt_def
        isArray_def array_elements_def split: sum.splits option.splits json.splits)

lemma push_candidates_eq:
  "push_candidates acc ls = acc @ map extracted (filter is_candidate ls)"
  by (induction ls arbitrary: acc) auto

lemma fallback_eq:
  "fallback response =
     take 3 (map extracted (filter (\<lambda>l. nonblank l \<and> is_candidate l) (split_lines response)))"
  by (simp add: fallback_def push_candidates_eq)

lemma parseResponse_eq:
  "parseResponse response =
     Inr (case try_block response of Inr (Some ss) \<Rightarrow> ss | _ \<Rightarrow> fallback response)"
  by (simp add: parseResponse_def split: sum.splits option.splits)

lemma sublist_join:
  "x \<in> set xs \<Longrightarrow> sublist x (join sep xs)"
proof (induction sep xs rule: join.induct)
  case (1 sep)
  then show ?case by simp
next
  case (2 sep y)
  then show ?case by simp
next
  case (3 sep a b ys)
  show ?case
  proof (cases "x = a")
    case True
    then show ?thesis by (simp add: sublist_append_rightI)
  next
    case False
    with 3 have "sublist x (join sep (b # ys))" by simp
    then obtain ps ss where "join sep (b # ys) = ps @ x @ ss"
      by (auto simp: sublist_def)
    then have "join sep (a # b # ys) = (a @ sep @ ps) @ x @ ss" by simp
    then show ?thesis unfolding sublist_def by blast
  qed
qed

lemma try_block_structured:
  assumes "try_block response = Inr (Some ss)"
  shows "\<exists>es. ss = map suggestion_of es"
  using assms
  by (auto simp: try_block_cases split: sum.splits if_splits option.splits json.splits)

lemma fallback_when_not_structured:
  assumes "\<forall>ss. try_block response \<noteq> Inr (Some ss)"
  shows "parseResponse response = Inr (fallback response)"
proof (cases "try_block response")
  case (Inl e)
  then show ?thesis by (simp add: parseResponse_eq)
next
  case (Inr r)
  with assms have "r = None" by (cases r) auto
  with Inr show ?thesis by (simp add: parseResponse_eq)
qed

lemma not_structured_of_error:
  assumes "JSON_parse (cleanResponse response) = Inl e"
  shows "\<forall>ss. try_block response \<noteq> Inr (Some ss)"
  using assms by (simp add: try_block_cases)

lemma startsWith_char_take: "startsWith_char l c = (take 1 l = [c])"
  by (cases l) (simp_all add: startsWith_char_def)

lemma fallback_spelled_out:
  "fallback response =
     take 3 (map (\<lambda>line. \<lparr>message = JString (trim line), confidence = JNumber (Finite 70),
                            reasoning = JString (str ''Extracted from AI response'')\<rparr>)
       (filter (\<lambda>line. trim line \<noteq> [] \<and> 0x003A \<in> set line \<and>
                        take 1 line \<noteq> [0x007B] \<and> take 1 line \<noteq> [0x007D])
          (split_lines response)))"
proof -
  have e: "extracted = (\<lambda>line. \<lparr>message = JString (trim line), confidence = JNumber (Finite 70),
                            reasoning = JString (str ''Extracted from AI response'')\<rparr>)"
    by (rule ext) (simp add: extracted_def)
  have p: "(\<lambda>l. nonblank l \<and> is_candidate l) =
      (\<lambda>line. trim line \<noteq> [] \<and> 0x003A \<in> set line \<and>
                        take 1 line \<noteq> [0x007B] \<and> take 1 line \<noteq> [0x007D])"
    by (rule ext) (simp add: nonblank_def is_candidate_def includes_char_def startsWith_char_take)
  show ?thesis
    unfolding fallback_eq e p ..
qed

lemma fallback_length: "length (fallback response) \<le> 3"
  by (simp add: fallback_def)

lemma fallback_prefix:
  "prefix (fallback response)
     (map extracted (filter is_candidate (filter nonblank (split_lines response))))"
  by (simp add: fallback_def push_candidates_eq take_is_prefix)

lemma fallback_member:
  assumes "s \<in> set (fallback response)"
  shows "\<exists>line. nonblank line \<and> is_candidate line \<and> s = extracted line"
proof -
  from assms have "s \<in> set (map extracted
      (filter (\<lambda>l. nonblank l \<and> is_candidate l) (split_lines response)))"
    unfolding fallback_eq by (rule in_set_takeD)
  then show ?thesis by auto
qed

lemma js_or_truthy: "truthy d \<Longrightarrow> truthy (js_or v d)"
  by (simp add: js_or_def split: option.splits)

lemma js_or_empty: "js_or v (JString []) = JString [] \<or> truthy (js_or v (JString []))"
  by (simp add: js_or_def split: option.splits)

lemma truthy_placeholder: "truthy (JString (str ''No reasoning provided''))"
  by (simp add: str_def)

lemma response_by_path:
  assumes "parseResponse response = Inr ss" and "s \<in> set ss"
  shows "((\<forall>ss'. try_block response \<noteq> Inr (Some ss')) \<longrightarrow>
            (\<exists>line. nonblank line \<and> is_candidate line \<and> s = extracted line)) \<and>
         ((\<exists>ss'. try_block response = Inr (Some ss')) \<longrightarrow> (\<exists>e. s = suggestion_of e))"
proof (intro conjI impI)
  assume "\<forall>ss'. try_block response \<noteq> Inr (Some ss')"
  then have "parseResponse response = Inr (fallback response)"
    by (rule fallback_when_not_structured)
  with assms have "s \<in> set (fallback response)" by simp
  then show "\<exists>line. nonblank line \<and> is_candidate line \<and> s = extracted line"
    by (rule fallback_member)
next
  assume "\<exists>ss'. try_block response = Inr (Some ss')"
  then obtain ss' where t: "try_block response = Inr (Some ss')" ..
  then have "parseResponse response = Inr ss'" by (simp add: parseResponse_eq)
  with assms have "s \<in> set ss'" by simp
  moreover from try_block_structured [OF t] obtain es where "ss' = map suggestion_of es" ..
  ultimately show "\<exists>e. s = suggestion_of e" by auto
qed

lemma reasoning_extracted:
  "reasoning (extracted line) = JString (str ''Extracted from AI response'')"
  by (simp add: extracted_def)

lemma reasoning_suggestion_of:
  "reasoning (suggestion_of e) =
     (case member_of e (str ''reasoning'') of
        None \<Rightarrow> JString (str ''No reasoning provided'')
      | Some v \<Rightarrow> if truthy v then v else JString (str ''No reasoning provided''))"
  by (simp add: suggestion_of_def js_or_def)

lemma truthy_reasoning_suggestion_of: "truthy (reasoning (suggestion_of e))"
  by (simp add: suggestion_of_def) (rule js_or_truthy [OF truthy_placeholder])

lemma truthy_reasoning_extracted: "truthy (reasoning (extracted line))"
  by (simp add: extracted_def str_def)

lemma truthy_not_empty: "truthy v \<Longrightarrow> v \<noteq> JString []"
  by (cases v) simp_all




lemma rationale_fallback:
  assumes "parseResponse response = Inr ss" and "s \<in> set ss"
    and f: "\<forall>ss'. try_block response \<noteq> Inr (Some ss')"
  shows "reasoning s = JString (str ''Extracted from AI response'')"
proof -
  from response_by_path [OF assms(1,2), THEN conjunct1, THEN mp, OF f]
  obtain line where "s = extracted line" by (elim exE conjE)
  then show ?thesis by (simp only: reasoning_extracted)
qed


lemma rationale_truthy:
  assumes "parseResponse response = Inr ss" and "s \<in> set ss"
  shows "truthy (reasoning s)"
proof (cases "\<exists>ss'. try_block response = Inr (Some ss')")
  case True
  from response_by_path [OF assms, THEN conjunct2, THEN mp, OF True]
  obtain e where "s = suggestion_of e" ..
  then show ?thesis
    by (simp only: truthy_reasoning_suggestion_of)
next
  case False
  then have "\<forall>ss'. try_block response \<noteq> Inr (Some ss')" by simp
  from response_by_path [OF assms, THEN conjunct1, THEN mp, OF this]
  obtain line where "s = extracted line" by (elim exE conjE)
  then show ?thesis by (simp only: truthy_reasoning_extracted)
qed

lemma try_block_elements:
  assumes "try_block response = Inr (Some ss)"
  shows "\<exists>parsed es. JSON_parse (cleanResponse response) = Inr parsed \<and>
           member_of parsed (str ''suggestions'') = Some (JArray es) \<and>
           JNull \<notin> set es \<and> ss = map suggestion_of es"
  using assms
  by (auto simp: try_block_cases split: sum.splits if_splits option.splits json.splits)

lemma structured_suggestion:
  assumes p: "parseResponse response = Inr ss" and m: "s \<in> set ss"
    and t: "\<exists>ss'. try_block response = Inr (Some ss')"
  shows "\<exists>parsed es e. JSON_parse (cleanResponse response) = Inr parsed \<and>
           member_of parsed (str ''suggestions'') = Some (JArray es) \<and>
           ss = map suggestion_of es \<and> e \<in> set es \<and> s = suggestion_of e"
proof -
  from t obtain ss' where t': "try_block response = Inr (Some ss')" ..
  then have "parseResponse response = Inr ss'" by (simp add: parseResponse_eq)
  with p have eq: "ss' = ss" by simp
  from try_block_elements [OF t'] eq obtain parsed es where
    a: "JSON_parse (cleanResponse response) = Inr parsed" and
    b: "member_of parsed (str ''suggestions'') = Some (JArray es)" and
    c: "ss = map suggestion_of es"
    by blast
  from m c obtain e where d: "e \<in> set es" and e: "s = suggestion_of e"
    by auto
  from a b c d e show ?thesis by blast
qed

lemma message_suggestion_of:
  "message (suggestion_of e) = js_or (member_of e (str ''message'')) (JString [])"
  by (simp add: suggestion_of_def)

lemma confidence_suggestion_of:
  "confidence (suggestion_of e) = js_or (member_of e (str ''confidence'')) (JNumber (Finite 50))"
  by (simp add: suggestion_of_def)

lemma truthy_confidence_suggestion_of: "truthy (confidence (suggestion_of e))"
  by (simp add: suggestion_of_def js_or_truthy)

lemma message_suggestion_of_cases:
  "message (suggestion_of e) = JString [] \<or> truthy (message (suggestion_of e))"
  using js_or_empty by (simp add: suggestion_of_def)

lemma rationale_structured_tied:
  assumes "parseResponse response = Inr ss" and "s \<in> set ss"
    and t: "\<exists>ss'. try_block response = Inr (Some ss')"
  shows "\<exists>parsed es e.
           JSON_parse (cleanResponse response) = Inr parsed \<and>
           member_of parsed (str ''suggestions'') = Some (JArray es) \<and>
           ss = map suggestion_of es \<and> e \<in> set es \<and>
           reasoning s =
             (case member_of e (str ''reasoning'') of
                None \<Rightarrow> JString (str ''No reasoning provided'')
              | Some v \<Rightarrow> if truthy v then v else JString (str ''No reasoning provided''))"
proof -
  from structured_suggestion [OF assms(1,2) t] obtain parsed es e where
    a: "JSON_parse (cleanResponse response) = Inr parsed" and
    b: "member_of parsed (str ''suggestions'') = Some (JArray es)" and
    c: "ss = map suggestion_of es" and d: "e \<in> set es" and e: "s = suggestion_of e"
    by blast
  from e have f: "reasoning s =
             (case member_of e (str ''reasoning'') of
                None \<Rightarrow> JString (str ''No reasoning provided'')
              | Some v \<Rightarrow> if truthy v then v else JString (str ''No reasoning provided''))"
    by (simp only: reasoning_suggestion_of)
  from a b c d f show ?thesis
    by (intro exI [where x = parsed] exI [where x = es] exI [where x = e] conjI)
qed

lemma try_block_of_parse:
  assumes "JSON_parse (cleanResponse response) = Inr parsed"
    and "member_of parsed (str ''suggestions'') = Some (JArray es)"
    and "JNull \<notin> set es"
  shows "try_block response = Inr (Some (map suggestion_of es))"
proof -
  from assms(2) have "parsed \<noteq> JNull" by auto
  with assms show ?thesis
    by (simp add: try_block_cases)
qed

subsection \<open>The prompt as a concatenation\<close>

lemma sublist_in_context:
  assumes "sublist xs ys"
  shows "sublist xs (ps @ ys @ ss)"
proof -
  from assms obtain a b where "ys = a @ xs @ b"
    by (auto simp: sublist_def)
  then have "ps @ ys @ ss = (ps @ a) @ xs @ (b @ ss)" by simp
  then show ?thesis unfolding sublist_def by blast
qed

lemma describeChange_spelled_out:
  "describeChange d =
     str ''File: '' @ file d @ str '' (+'' @ Number_toString (additions d) @ str ''/-'' @
     Number_toString (deletions d) @ str '')\<newline>Status: '' @ status_string (status d) @
     str ''\<newline>Key changes:\<newline>  '' @ join (str ''\<newline>  '') (take 5 (changes d))"
  by (simp add: describeChange_def stats_def str_def)

lemma describeChange_truncated:
  "describeChange (d\<lparr>changes := take 5 (changes d)\<rparr>) = describeChange d"
  by (simp add: describeChange_def stats_def)

lemma changesDescription_truncated:
  "changesDescription (map (\<lambda>d. d\<lparr>changes := take 5 (changes d)\<rparr>) gitDiffs) =
   changesDescription gitDiffs"
  by (simp add: changesDescription_def describeChange_truncated comp_def)



lemma buildPrompt_split:
  "buildPrompt gitDiffs config recentCommits branchName =
     (prompt_intro @ branchName @ prompt_after_branch @ recentCommitsContext recentCommits @
        prompt_changes_heading) @ changesDescription gitDiffs @
       (prompt_requirements_heading @ conventionalRule (conventionalCommits config) @
        prompt_max_length @ Number_toString (maxLength config) @
        prompt_style_rules @ bodyRule (includeBody config) @
        prompt_types_and_format @ additionalInstructions (customPrompt config))"
  by (simp only: buildPrompt_def append_assoc)

lemma sublist_describeChange:
  assumes "d \<in> set gitDiffs"
  shows "sublist (describeChange d) (buildPrompt gitDiffs config recentCommits branchName)"
proof -
  from assms have "describeChange d \<in> set (map describeChange gitDiffs)"
    by simp
  then have "sublist (describeChange d) (changesDescription gitDiffs)"
    unfolding changesDescription_def by (rule sublist_join)
  then show ?thesis
    unfolding buildPrompt_split by (rule sublist_in_context)
qed


lemma buildPrompt_truncated:
  "buildPrompt (map (\<lambda>d. d\<lparr>changes := take 5 (changes d)\<rparr>) gitDiffs)
           config recentCommits branchName =
         buildPrompt gitDiffs config recentCommits branchName"
  by (simp only: buildPrompt_def changesDescription_truncated)

lemma prompt_after_branch_eq: "prompt_after_branch = str ''\<newline>''"
  by (simp add: prompt_after_branch_def)

lemma prompt_changes_heading_eq:
  "prompt_changes_heading = str ''\<newline>\<newline>CHANGES TO COMMIT:\<newline>''"
  by (simp add: prompt_changes_heading_def str_def)

lemma buildPrompt_no_commits:
  "buildPrompt gitDiffs config [] branchName =
     prompt_intro @ branchName @ str ''\<newline>'' @
     str ''\<newline>\<newline>CHANGES TO COMMIT:\<newline>'' @ prompt_rest gitDiffs config"
  by (simp only: buildPrompt_def recentCommitsContext_def prompt_rest_def
        prompt_after_branch_eq prompt_changes_heading_eq) simp

lemma buildPrompt_commits:
  assumes "recentCommits \<noteq> []"
  shows "buildPrompt gitDiffs config recentCommits branchName =
     prompt_intro @ branchName @ str ''\<newline>'' @
     str ''Recent commits for context:\<newline>'' @
     join (str ''\<newline>'') (map (\<lambda>c. str ''- '' @ c) (take 5 recentCommits)) @
     str ''\<newline>\<newline>'' @
     str ''\<newline>\<newline>CHANGES TO COMMIT:\<newline>'' @ prompt_rest gitDiffs config"
proof -
  from assms have "recentCommitsContext recentCommits =
      str ''Recent commits for context:\<newline>'' @
      join (str ''\<newline>'') (map (\<lambda>c. str ''- '' @ c) (take 5 recentCommits)) @
      str ''\<newline>\<newline>''"
    by (simp add: recentCommitsContext_def)
  then show ?thesis
    by (simp only: buildPrompt_def prompt_rest_def prompt_after_branch_eq
          prompt_changes_heading_eq append_assoc)
qed

lemma recentCommitsContext_take:
  "recentCommitsContext (take 5 recentCommits) = recentCommitsContext recentCommits"
  by (cases recentCommits) (simp_all add: recentCommitsContext_def)

lemma buildPrompt_take:
  "buildPrompt gitDiffs config (take 5 recentCommits) branchName =
   buildPrompt gitDiffs config recentCommits branchName"
  by (simp only: buildPrompt_def recentCommitsContext_take)



subsection \<open>Evaluation on concrete responses\<close>

text \<open>
  The simplifier runs the model on a concrete response with the definitions below
  unfolded; the rounding of the number literals that occur is computed once.
\<close>

lemma to_double_0: "to_double 0 = Finite 0"
  by (simp add: to_double_def)

lemma to_double_90: "to_double 90 = Finite 90"
  by code_simp

lemma to_double_150: "to_double 150 = Finite 150"
  by code_simp

lemmas string_eval = str_def isTrimSpace_def trim_def includes_char_def startsWith_char_def
  replace_newlines_def cleanResponse_def nonblank_def is_candidate_def

lemmas json_eval = isDigit_def digit_val_def digits_val_def hex_val_def hex4_def
  escape_char_def lex_escape_def lex_int_part_def lex_frac_part_def lex_exp_digits_def
  lex_exp_part_def lex_unsigned_def lex_number_def isJsonSpace_def lex_token_def JSON_parse_def
  pow10_def to_double_0 to_double_90 to_double_150

lemma structured_path:
  assumes "JSON_parse (cleanResponse response) = Inr parsed"
    and "member_of parsed (str ''suggestions'') = Some (JArray es)"
    and "JNull \<notin> set es"
  shows "parseResponse response = Inr (map suggestion_of es)"
proof -
  from assms(2) have "parsed \<noteq> JNull" by auto
  with assms show ?thesis
    by (simp add: parseResponse_eq try_block_cases)
qed

lemma fallback_path:
  assumes "JSON_parse (cleanResponse response) = Inl e"
  shows "parseResponse response = Inr (fallback response)"
  using assms by (simp add: parseResponse_eq try_block_cases)

lemma js_or_cases:
  "js_or None d = d" "js_or (Some x) d = (if truthy x then x else d)"
  by (simp_all add: js_or_def)

lemma parse_fix_bug:
  \<open>JSON_parse (cleanResponse
      (str ''{"suggestions":[{"message":"fix bug","confidence":90,"reasoning":"why"}]}'')) =
   Inr (JObject [(str ''suggestions'',
          JArray [JObject [(str ''message'', JString (str ''fix bug'')),
                           (str ''confidence'', JNumber (Finite 90)),
                           (str ''reasoning'', JString (str ''why''))]])])\<close>
  by (simp add: string_eval json_eval)

lemma parse_message_only:
  \<open>JSON_parse (cleanResponse (str ''{"suggestions":[{"message":"x"}]}'')) =
   Inr (JObject [(str ''suggestions'', JArray [JObject [(str ''message'', JString (str ''x''))]])])\<close>
  by (simp add: string_eval json_eval)

lemma parse_confidence_zero:
  \<open>JSON_parse (cleanResponse (str ''{"suggestions":[{"message":"x","confidence":0}]}'')) =
   Inr (JObject [(str ''suggestions'',
          JArray [JObject [(str ''message'', JString (str ''x'')),
                           (str ''confidence'', JNumber (Finite 0))]])])\<close>
  by (simp add: string_eval json_eval)

lemma response_fix_bug:
  \<open>parseResponse
      (str ''{"suggestions":[{"message":"fix bug","confidence":90,"reasoning":"why"}]}'') =
   Inr [\<lparr>message = JString (str ''fix bug''), confidence = JNumber (Finite 90),
         reasoning = JString (str ''why'')\<rparr>]\<close>
  by (subst structured_path [OF parse_fix_bug])
     ((simp_all add: suggestion_of_def js_or_def str_def)+)

lemma response_message_only:
  \<open>parseResponse (str ''{"suggestions":[{"message":"x"}]}'') =
   Inr [\<lparr>message = JString (str ''x''), confidence = JNumber (Finite 50),
         reasoning = JString (str ''No reasoning provided'')\<rparr>]\<close>
  by (subst structured_path [OF parse_message_only])
     ((simp_all add: suggestion_of_def js_or_def str_def)+)

lemma response_confidence_zero:
  \<open>parseResponse (str ''{"suggestions":[{"message":"x","confidence":0}]}'') =
   Inr [\<lparr>message = JString (str ''x''), confidence = JNumber (Finite 50),
         reasoning = JString (str ''No reasoning provided'')\<rparr>]\<close>
  by (subst structured_path [OF parse_confidence_zero])
     ((simp_all add: suggestion_of_def js_or_def str_def)+)

lemma parse_falsy_fields:
  \<open>JSON_parse (cleanResponse
      (str ''{"suggestions":[{"message":"m","confidence":0,"reasoning":""},true]}'')) =
   Inr (JObject [(str ''suggestions'',
          JArray [JObject [(str ''message'', JString (str ''m'')),
                           (str ''confidence'', JNumber (Finite 0)),
                           (str ''reasoning'', JString [])],
                  JBool True])])\<close>
  by (simp add: string_eval json_eval)

lemma parse_fenced:
  \<open>JSON_parse (cleanResponse
      (fence @ str ''json\<newline>{"suggestions":[{"message":"x"}]}\<newline>'' @ fence)) =
   Inl SyntaxError\<close>
  by (simp add: string_eval json_eval fence_def)

lemma clean_fenced:
  \<open>cleanResponse (fence @ str ''json\<newline>{"suggestions":[{"message":"x"}]}\<newline>'' @ fence) =
   fence @ str ''json{"suggestions":[{"message":"x"}]}'' @ fence\<close>
  by (simp add: string_eval fence_def)

lemma fallback_fenced:
  \<open>fallback (fence @ str ''json\<newline>{"suggestions":[{"message":"x"}]}\<newline>'' @ fence) = []\<close>
  by (simp add: fallback_def extracted_def string_eval fence_def)

lemma parse_prose:
  \<open>JSON_parse (cleanResponse
      (str ''not json at all\<newline>feat: add login\<newline>random line without colon'')) =
   Inl SyntaxError\<close>
  by (simp add: string_eval json_eval)

lemma fallback_prose:
  \<open>fallback (str ''not json at all\<newline>feat: add login\<newline>random line without colon'') =
   [\<lparr>message = JString (str ''feat: add login''), confidence = JNumber (Finite 70),
     reasoning = JString (str ''Extracted from AI response'')\<rparr>]\<close>
  by (simp add: fallback_def extracted_def string_eval)

lemma parse_empty: "JSON_parse (cleanResponse []) = Inl SyntaxError"
  by (simp add: string_eval json_eval)

lemma fallback_empty: "fallback [] = []"
  by (simp add: fallback_def string_eval)

lemma parse_four_lines:
  \<open>JSON_parse (cleanResponse (str ''a:1\<newline>b:2\<newline>c:3\<newline>d:4'')) = Inl SyntaxError\<close>
  by (simp add: string_eval json_eval)

lemma candidates_four_lines:
  \<open>filter is_candidate (filter nonblank (split_lines (str ''a:1\<newline>b:2\<newline>c:3\<newline>d:4''))) =
   [str ''a:1'', str ''b:2'', str ''c:3'', str ''d:4'']\<close>
  by (simp add: string_eval)

lemma parse_mixed_lines:
  \<open>JSON_parse (cleanResponse
      (str ''x: 1\<newline>{y: 2\<newline>  z: 3  \<newline>\<newline>w: 4\<newline>v: 5'')) = Inl SyntaxError\<close>
  by (simp add: string_eval json_eval)


lemma parse_four_records:
  \<open>JSON_parse (cleanResponse
      (str ''{"suggestions":[{"message":"a"},{"message":"b"},{"message":"c"},{"message":"d"}]}'')) =
   Inr (JObject [(str ''suggestions'',
          JArray [JObject [(str ''message'', JString (str ''a''))],
                  JObject [(str ''message'', JString (str ''b''))],
                  JObject [(str ''message'', JString (str ''c''))],
                  JObject [(str ''message'', JString (str ''d''))]])])\<close>
  by (simp add: string_eval json_eval)

lemma response_four_records:
  \<open>parseResponse
      (str ''{"suggestions":[{"message":"a"},{"message":"b"},{"message":"c"},{"message":"d"}]}'') =
   Inr (map suggestion_of
          [JObject [(str ''message'', JString (str ''a''))],
           JObject [(str ''message'', JString (str ''b''))],
           JObject [(str ''message'', JString (str ''c''))],
           JObject [(str ''message'', JString (str ''d''))]])\<close>
  by (rule structured_path [OF parse_four_records]) (simp_all add: str_def)

lemma parse_confidence_150:
  \<open>JSON_parse (cleanResponse (str ''{"suggestions":[{"confidence":150}]}'')) =
   Inr (JObject [(str ''suggestions'',
          JArray [JObject [(str ''confidence'', JNumber (Finite 150))]])])\<close>
  by (simp add: string_eval json_eval)

lemma response_four_lines:
  \<open>parseResponse (str ''a:1\<newline>b:2\<newline>c:3\<newline>d:4'') =
     Inr [extracted (str ''a:1''), extracted (str ''b:2''), extracted (str ''c:3'')]\<close>
proof -
  let ?r = \<open>str ''a:1\<newline>b:2\<newline>c:3\<newline>d:4''\<close>
  have \<open>fallback ?r = [extracted (str ''a:1''), extracted (str ''b:2''), extracted (str ''c:3'')]\<close>
    by (simp only: fallback_def push_candidates_eq candidates_four_lines) simp
  with fallback_path [OF parse_four_lines] show ?thesis by simp
qed


lemma parse_reasoning_array:
  \<open>JSON_parse (cleanResponse (str ''{"suggestions":[{"reasoning":[]}]}'')) =
   Inr (JObject [(str ''suggestions'', JArray [JObject [(str ''reasoning'', JArray [])]])])\<close>
  by (simp add: string_eval json_eval)

lemma response_reasoning_array:
  \<open>parseResponse (str ''{"suggestions":[{"reasoning":[]}]}'') =
   Inr [\<lparr>message = JString [], confidence = JNumber (Finite 50), reasoning = JArray []\<rparr>]\<close>
  by (subst structured_path [OF parse_reasoning_array])
     ((simp_all add: suggestion_of_def js_or_def str_def)+)

lemma response_confidence_150:
  \<open>parseResponse (str ''{"suggestions":[{"confidence":150}]}'') =
   Inr [\<lparr>message = JString [], confidence = JNumber (Finite 150),
         reasoning = JString (str ''No reasoning provided'')\<rparr>]\<close>
  by (subst structured_path [OF parse_confidence_150])
     ((simp_all add: suggestion_of_def js_or_def str_def)+)

lemma structured_confidence_150:
  \<open>try_block (str ''{"suggestions":[{"confidence":150}]}'') =
   Inr (Some (map suggestion_of [JObject [(str ''confidence'', JNumber (Finite 150))]]))\<close>
  by (rule try_block_of_parse [OF parse_confidence_150]) (simp_all add: str_def)

lemma response_falsy_fields:
  \<open>parseResponse (str ''{"suggestions":[{"message":"m","confidence":0,"reasoning":""},true]}'') =
   Inr [\<lparr>message = JString (str ''m''), confidence = JNumber (Finite 50),
         reasoning = JString (str ''No reasoning provided'')\<rparr>,
        \<lparr>message = JString [], confidence = JNumber (Finite 50),
         reasoning = JString (str ''No reasoning provided'')\<rparr>]\<close>
  by (subst structured_path [OF parse_falsy_fields])
     ((simp_all add: suggestion_of_def js_or_def str_def)+)

lemma structured_falsy_fields:
  \<open>try_block (str ''{"suggestions":[{"message":"m","confidence":0,"reasoning":""},true]}'') =
   Inr (Some (map suggestion_of
     [JObject [(str ''message'', JString (str ''m'')),
               (str ''confidence'', JNumber (Finite 0)),
               (str ''reasoning'', JString [])],
      JBool True]))\<close>
  by (rule try_block_of_parse [OF parse_falsy_fields]) (simp_all add: str_def)

subsection \<open>Evaluation on concrete prompts\<close>

lemma print_12: "Number_toString (Double (Finite 12)) = str ''12''"
  by code_simp

lemma print_3: "Number_toString (Double (Finite 3)) = str ''3''"
  by code_simp

lemma print_72: "Number_toString (Double (Finite 72)) = str ''72''"
  by code_simp

lemma print_zero: "Number_toString (Double (Finite 0)) = str ''0''"
  by code_simp

lemma print_negative: "Number_toString (Double (Finite (- 3))) = str ''-3''"
  by code_simp

lemma print_half: "Number_toString (Double (Finite (1 / 2))) = str ''0.5''"
  by code_simp

lemma print_exponent: "Number_toString (Double (Finite (10 ^ 21))) = str ''1e+21''"
  by code_simp

lemma print_rounded:
  "Number_toString (Double (Finite (2 ^ 64))) = str ''18446744073709552000''"
  by code_simp

lemma example_rendering:
  "str ''File: '' @ file example_diff @ str '' (+'' @ Number_toString (additions example_diff) @
     str ''/-'' @ Number_toString (deletions example_diff) @ str '')\<newline>Status: '' @
     status_string (status example_diff) @ str ''\<newline>Key changes:\<newline>  '' @
     join (str ''\<newline>  '') (take 5 (changes example_diff)) =
   str ''File: src/a.ts (+12/-3)\<newline>Status: modified\<newline>Key changes:\<newline>  +1\<newline>  +2\<newline>  +3\<newline>  +4\<newline>  +5''"
  by (simp add: example_diff_def print_12 print_3 str_def del: Number_toString.simps)



lemma example_commit_lines:
  "join (str ''\<newline>'') (map (\<lambda>c. str ''- '' @ c) (take 5 example_commits)) =
   str ''- one\<newline>- two\<newline>- three\<newline>- four\<newline>- five''"
  by (simp add: example_commits_def str_def)

lemma heading_absent_example:
  "\<not> sublist (str ''Recent commits for context:'')
       (buildPrompt [example_diff] example_config [] (str ''main''))"
  by code_simp

section \<open>The claims\<close>

text \<open>
  C1. \<^verbatim>\<open>parseResponse\<close> returns a sequence of suggestions, possibly empty, for every
  input string: the \<^verbatim>\<open>SyntaxError\<close> of \<^verbatim>\<open>JSON.parse\<close> and the \<^verbatim>\<open>TypeError\<close> of a property
  read on \<^verbatim>\<open>null\<close> are both thrown inside the \<^verbatim>\<open>try\<close> block, whose \<^verbatim>\<open>catch\<close> clause
  goes on to the fallback, and the fallback has no operation that throws.
  \<^verbatim>\<open>buildPrompt\<close> has none either: for every diff list, config, recent-commit list
  and branch name it returns a string, which starts with the role framing and the
  branch line; for the empty diff list the section of the changes is empty, and the
  heading of the requirements follows the heading of the changes at once.
\<close>

theorem core_never_throws:
  "(\<exists>suggestions. parseResponse response = Inr suggestions) \<and>
   (\<exists>prompt. buildPrompt gitDiffs config recentCommits branchName = prompt \<and>
      prefix (prompt_intro @ branchName) prompt) \<and>
   buildPrompt [] config recentCommits branchName =
     prompt_intro @ branchName @
     prompt_after_branch @ recentCommitsContext recentCommits @
     prompt_changes_heading @
     prompt_requirements_heading @ conventionalRule (conventionalCommits config) @
     prompt_max_length @ Number_toString (maxLength config) @
     prompt_style_rules @ bodyRule (includeBody config) @
     prompt_types_and_format @ additionalInstructions (customPrompt config)"
proof (intro conjI)
  show "\<exists>suggestions. parseResponse response = Inr suggestions"
    by (simp add: parseResponse_eq)
  show "\<exists>prompt. buildPrompt gitDiffs config recentCommits branchName = prompt \<and>
      prefix (prompt_intro @ branchName) prompt"
    by (simp add: buildPrompt_def prefix_def)
  show "buildPrompt [] config recentCommits branchName =
     prompt_intro @ branchName @
     prompt_after_branch @ recentCommitsContext recentCommits @
     prompt_changes_heading @
     prompt_requirements_heading @ conventionalRule (conventionalCommits config) @
     prompt_max_length @ Number_toString (maxLength config) @
     prompt_style_rules @ bodyRule (includeBody config) @
     prompt_types_and_format @ additionalInstructions (customPrompt config)"
    by (simp add: buildPrompt_def changesDescription_def)
qed

text \<open>
  C2, as stated, fails: a default also replaces a member that is present and falsy.
  The response below has an element with \<^verbatim>\<open>"confidence":0\<close>; by the claim the
  suggestion keeps the element's confidence \<^verbatim>\<open>0\<close>, and the code returns \<^verbatim>\<open>50\<close>
  (\<^verbatim>\<open>suggestion.confidence || 50\<close>).
\<close>

theorem structured_default_counterexample:
  \<open>JSON_parse (str ''{"suggestions":[{"message":"x","confidence":0}]}'') =
     Inr (JObject [(str ''suggestions'',
            JArray [JObject [(str ''message'', JString (str ''x'')),
                             (str ''confidence'', JNumber (Finite 0))]])]) \<and>
   confidence (claimed_suggestion
      (JObject [(str ''message'', JString (str ''x'')),
                (str ''confidence'', JNumber (Finite 0))])) = JNumber (Finite 0) \<and>
   parseResponse (str ''{"suggestions":[{"message":"x","confidence":0}]}'') =
     Inr [\<lparr>message = JString (str ''x''), confidence = JNumber (Finite 50),
           reasoning = JString (str ''No reasoning provided'')\<rparr>] \<and>
   parseResponse (str ''{"suggestions":[{"message":"x","confidence":0}]}'') \<noteq>
     Inr (map claimed_suggestion
       [JObject [(str ''message'', JString (str ''x'')),
                 (str ''confidence'', JNumber (Finite 0))]])\<close>
proof -
  have c: \<open>cleanResponse (str ''{"suggestions":[{"message":"x","confidence":0}]}'') =
      str ''{"suggestions":[{"message":"x","confidence":0}]}''\<close>
    by (simp add: string_eval)
  have k: \<open>confidence (claimed_suggestion
      (JObject [(str ''message'', JString (str ''x'')),
                (str ''confidence'', JNumber (Finite 0))])) = JNumber (Finite 0)\<close>
    by (simp add: claimed_suggestion_def default_when_missing_def str_def)
  from parse_confidence_zero c k response_confidence_zero show ?thesis
    by (simp add: claimed_suggestion_def)
qed

text \<open>
  C2, amended. For every response whose cleaned text parses to an object whose
  \<^verbatim>\<open>suggestions\<close> member is an array without \<^verbatim>\<open>null\<close> elements (records in particular),
  \<^verbatim>\<open>parseResponse\<close> returns one suggestion per element, in order: its message is the
  element's \<^verbatim>\<open>message\<close> or the empty string, its confidence the element's
  \<^verbatim>\<open>confidence\<close> or \<^verbatim>\<open>50\<close>, its reasoning the element's \<^verbatim>\<open>reasoning\<close> or
  \<^verbatim>\<open>"No reasoning provided"\<close>, where the default stands in for a member that is
  missing or falsy (\<^verbatim>\<open>null\<close>, \<^verbatim>\<open>false\<close>, \<^verbatim>\<open>0\<close>, the empty string). The two
  examples of the claim hold as written.
\<close>

theorem structured_path_mapping:
  \<open>(\<forall>response parsed es.
      JSON_parse (cleanResponse response) = Inr parsed \<and>
      member_of parsed (str ''suggestions'') = Some (JArray es) \<and> JNull \<notin> set es \<longrightarrow>
      parseResponse response = Inr (map suggestion_of es)) \<and>
    (\<forall>d x. js_or None d = d \<and> js_or (Some x) d = (if truthy x then x else d)) \<and>
    parseResponse
      (str ''{"suggestions":[{"message":"fix bug","confidence":90,"reasoning":"why"}]}'') =
      Inr [\<lparr>message = JString (str ''fix bug''), confidence = JNumber (Finite 90),
            reasoning = JString (str ''why'')\<rparr>] \<and>
    parseResponse (str ''{"suggestions":[{"message":"x"}]}'') =
      Inr [\<lparr>message = JString (str ''x''), confidence = JNumber (Finite 50),
            reasoning = JString (str ''No reasoning provided'')\<rparr>]\<close>
  using structured_path js_or_cases response_fix_bug response_message_only
  by blast

theorem structured_path_mapping_witness:
  \<open>parseResponse (str ''{"suggestions":[{"message":"m","confidence":0,"reasoning":""},true]}'') =
     Inr [\<lparr>message = JString (str ''m''), confidence = JNumber (Finite 50),
           reasoning = JString (str ''No reasoning provided'')\<rparr>,
          \<lparr>message = JString [], confidence = JNumber (Finite 50),
           reasoning = JString (str ''No reasoning provided'')\<rparr>]\<close>
proof -
  let ?e = \<open>JObject [(str ''message'', JString (str ''m'')),
                     (str ''confidence'', JNumber (Finite 0)),
                     (str ''reasoning'', JString [])]\<close>
  let ?es = \<open>[?e, JBool True]\<close>
  have m: \<open>member_of (JObject [(str ''suggestions'', JArray ?es)]) (str ''suggestions'') =
      Some (JArray ?es)\<close>
    by (simp add: str_def)
  have n: "JNull \<notin> set ?es"
    by simp
  from structured_path_mapping parse_falsy_fields m n
  have \<open>parseResponse
      (str ''{"suggestions":[{"message":"m","confidence":0,"reasoning":""},true]}'') =
      Inr (map suggestion_of ?es)\<close>
    by blast
  then show ?thesis
    by (simp add: suggestion_of_def js_or_def str_def)
qed

text \<open>
  C3. The code does not strip a Markdown fence: both patterns of lines 109 and 110
  match line feeds only, so the cleaned text keeps every grave accent,
  \<^verbatim>\<open>JSON.parse\<close> throws on it and the fallback runs. For the payload of the claim's
  second example the unwrapped text gives one suggestion and the fenced text none.
\<close>

theorem fenced_payload_not_unwrapped:
  \<open>parseResponse (str ''{"suggestions":[{"message":"x"}]}'') =
     Inr [\<lparr>message = JString (str ''x''), confidence = JNumber (Finite 50),
           reasoning = JString (str ''No reasoning provided'')\<rparr>] \<and>
   cleanResponse (fence @ str ''json\<newline>{"suggestions":[{"message":"x"}]}\<newline>'' @ fence) =
     fence @ str ''json{"suggestions":[{"message":"x"}]}'' @ fence \<and>
   parseResponse (fence @ str ''json\<newline>{"suggestions":[{"message":"x"}]}\<newline>'' @ fence) =
     Inr []\<close>
  using response_message_only clean_fenced fallback_path [OF parse_fenced] fallback_fenced
  by simp

text \<open>
  C4, as stated, fails: the fallback returns the first three of the lines it keeps,
  not one suggestion per kept line. The response below has four such lines, none of
  them JSON, and \<^verbatim>\<open>parseResponse\<close> returns three suggestions
  (\<^verbatim>\<open>suggestions.slice(0, 3)\<close>, line 140).
\<close>

theorem fallback_uncapped_counterexample:
  \<open>try_block (str ''a:1\<newline>b:2\<newline>c:3\<newline>d:4'') = Inl SyntaxError \<and>
   length (claimed_fallback (str ''a:1\<newline>b:2\<newline>c:3\<newline>d:4'')) = 4 \<and>
   parseResponse (str ''a:1\<newline>b:2\<newline>c:3\<newline>d:4'') =
     Inr [extracted (str ''a:1''), extracted (str ''b:2''), extracted (str ''c:3'')] \<and>
   parseResponse (str ''a:1\<newline>b:2\<newline>c:3\<newline>d:4'') \<noteq>
     Inr (claimed_fallback (str ''a:1\<newline>b:2\<newline>c:3\<newline>d:4''))\<close>
proof -
  let ?r = \<open>str ''a:1\<newline>b:2\<newline>c:3\<newline>d:4''\<close>
  have t: "try_block ?r = Inl SyntaxError"
    using parse_four_lines by (simp add: try_block_cases)
  have c: \<open>claimed_fallback ?r =
      map extracted [str ''a:1'', str ''b:2'', str ''c:3'', str ''d:4'']\<close>
    by (simp only: claimed_fallback_def candidates_four_lines)
  have f: \<open>fallback ?r = [extracted (str ''a:1''), extracted (str ''b:2''), extracted (str ''c:3'')]\<close>
    by (simp only: fallback_def push_candidates_eq candidates_four_lines) simp
  have p: "parseResponse ?r = Inr (fallback ?r)"
    using t by (simp add: parseResponse_eq)
  from t c f p show ?thesis by simp
qed

text \<open>
  C4, amended. On the fallback path (the \<^verbatim>\<open>try\<close> block throws, or ends without
  returning) \<^verbatim>\<open>parseResponse\<close> returns, in line order, the first three of the
  suggestions made from the lines that are not blank, contain a colon and do not start
  with an opening or closing brace; each has the trimmed line as message, confidence
  \<^verbatim>\<open>70\<close> and reasoning \<^verbatim>\<open>"Extracted from AI response"\<close>. The two examples of the
  claim hold as written.
\<close>

theorem fallback_path_extraction:
  \<open>(\<forall>response. (\<forall>ss. try_block response \<noteq> Inr (Some ss)) \<longrightarrow>
      parseResponse response =
        Inr (take 3
          (map (\<lambda>line. \<lparr>message = JString (trim line), confidence = JNumber (Finite 70),
                          reasoning = JString (str ''Extracted from AI response'')\<rparr>)
            (filter (\<lambda>line. trim line \<noteq> [] \<and> 0x003A \<in> set line \<and>
                             take 1 line \<noteq> [0x007B] \<and> take 1 line \<noteq> [0x007D])
               (split_lines response))))) \<and>
    parseResponse
      (str ''not json at all\<newline>feat: add login\<newline>random line without colon'') =
      Inr [\<lparr>message = JString (str ''feat: add login''), confidence = JNumber (Finite 70),
            reasoning = JString (str ''Extracted from AI response'')\<rparr>] \<and>
    parseResponse [] = Inr []\<close>
proof (intro conjI allI impI)
  fix response
  assume "\<forall>ss. try_block response \<noteq> Inr (Some ss)"
  then have "parseResponse response = Inr (fallback response)"
    by (rule fallback_when_not_structured)
  then show \<open>parseResponse response =
        Inr (take 3
          (map (\<lambda>line. \<lparr>message = JString (trim line), confidence = JNumber (Finite 70),
                          reasoning = JString (str ''Extracted from AI response'')\<rparr>)
            (filter (\<lambda>line. trim line \<noteq> [] \<and> 0x003A \<in> set line \<and>
                             take 1 line \<noteq> [0x007B] \<and> take 1 line \<noteq> [0x007D])
               (split_lines response))))\<close>
    by (simp only: fallback_spelled_out)
next
  show \<open>parseResponse
      (str ''not json at all\<newline>feat: add login\<newline>random line without colon'') =
      Inr [\<lparr>message = JString (str ''feat: add login''), confidence = JNumber (Finite 70),
            reasoning = JString (str ''Extracted from AI response'')\<rparr>]\<close>
    using fallback_path [OF parse_prose] fallback_prose by simp
next
  show "parseResponse [] = Inr []"
    using fallback_path [OF parse_empty] fallback_empty by simp
qed

theorem fallback_path_extraction_witness:
  \<open>parseResponse (str ''x: 1\<newline>{y: 2\<newline>  z: 3  \<newline>\<newline>w: 4\<newline>v: 5'') =
     Inr [\<lparr>message = JString (str ''x: 1''), confidence = JNumber (Finite 70),
           reasoning = JString (str ''Extracted from AI response'')\<rparr>,
          \<lparr>message = JString (str ''z: 3''), confidence = JNumber (Finite 70),
           reasoning = JString (str ''Extracted from AI response'')\<rparr>,
          \<lparr>message = JString (str ''w: 4''), confidence = JNumber (Finite 70),
           reasoning = JString (str ''Extracted from AI response'')\<rparr>]\<close>
proof -
  let ?r = \<open>str ''x: 1\<newline>{y: 2\<newline>  z: 3  \<newline>\<newline>w: 4\<newline>v: 5''\<close>
  have "\<forall>ss. try_block ?r \<noteq> Inr (Some ss)"
    by (rule not_structured_of_error [OF parse_mixed_lines])
  with fallback_path_extraction
  have \<open>parseResponse ?r =
        Inr (take 3
          (map (\<lambda>line. \<lparr>message = JString (trim line), confidence = JNumber (Finite 70),
                          reasoning = JString (str ''Extracted from AI response'')\<rparr>)
            (filter (\<lambda>line. trim line \<noteq> [] \<and> 0x003A \<in> set line \<and>
                             take 1 line \<noteq> [0x007B] \<and> take 1 line \<noteq> [0x007D])
               (split_lines ?r))))\<close>
    by blast
  then show ?thesis
    by (simp add: string_eval)
qed

text \<open>
  C5. On the fallback path \<^verbatim>\<open>parseResponse\<close> returns at most three suggestions, a
  prefix of the list of all suggestions the lines give, so the order is kept. The
  structured path has no cap: a response whose \<^verbatim>\<open>suggestions\<close> array has four records
  gives four suggestions.
\<close>

theorem fallback_capped_structured_uncapped:
  \<open>(\<forall>response. (\<forall>ss. try_block response \<noteq> Inr (Some ss)) \<longrightarrow>
      (\<exists>ss. parseResponse response = Inr ss \<and> length ss \<le> 3 \<and>
         prefix ss
           (map extracted (filter is_candidate (filter nonblank (split_lines response)))))) \<and>
    (\<exists>ss. parseResponse
        (str ''{"suggestions":[{"message":"a"},{"message":"b"},{"message":"c"},{"message":"d"}]}'') =
        Inr ss \<and>
      map message ss =
        [JString (str ''a''), JString (str ''b''), JString (str ''c''), JString (str ''d'')] \<and>
      length ss = 4 \<and> 3 < length ss)\<close>
proof (intro conjI allI impI)
  fix response
  assume "\<forall>ss. try_block response \<noteq> Inr (Some ss)"
  then have "parseResponse response = Inr (fallback response)"
    by (rule fallback_when_not_structured)
  with fallback_length [of response] fallback_prefix [of response]
  show "\<exists>ss. parseResponse response = Inr ss \<and> length ss \<le> 3 \<and>
         prefix ss
           (map extracted (filter is_candidate (filter nonblank (split_lines response))))"
    by simp
next
  show \<open>\<exists>ss. parseResponse
        (str ''{"suggestions":[{"message":"a"},{"message":"b"},{"message":"c"},{"message":"d"}]}'') =
        Inr ss \<and>
      map message ss =
        [JString (str ''a''), JString (str ''b''), JString (str ''c''), JString (str ''d'')] \<and>
      length ss = 4 \<and> 3 < length ss\<close>
    by (subst response_four_records) (simp add: suggestion_of_def js_or_def str_def)
qed

theorem fallback_capped_witness:
  \<open>(\<forall>ss. try_block (str ''a:1\<newline>b:2\<newline>c:3\<newline>d:4'') \<noteq> Inr (Some ss)) \<and>
   length (filter is_candidate (filter nonblank
      (split_lines (str ''a:1\<newline>b:2\<newline>c:3\<newline>d:4'')))) = 4 \<and>
   (\<exists>ss. parseResponse (str ''a:1\<newline>b:2\<newline>c:3\<newline>d:4'') = Inr ss \<and> length ss \<le> 3 \<and>
      prefix ss (map extracted (filter is_candidate (filter nonblank
        (split_lines (str ''a:1\<newline>b:2\<newline>c:3\<newline>d:4''))))))\<close>
proof -
  have n: \<open>\<forall>ss. try_block (str ''a:1\<newline>b:2\<newline>c:3\<newline>d:4'') \<noteq> Inr (Some ss)\<close>
    by (rule not_structured_of_error [OF parse_four_lines])
  have l: \<open>length (filter is_candidate (filter nonblank
      (split_lines (str ''a:1\<newline>b:2\<newline>c:3\<newline>d:4'')))) = 4\<close>
    by (simp only: candidates_four_lines) simp
  from fallback_capped_structured_uncapped n l show ?thesis
    by blast
qed

text \<open>
  C6. For every record of the diff list the prompt contains its rendering: the file
  path, the pair \<^verbatim>\<open>(+additions/-deletions)\<close> with both numbers as a template literal
  prints them, the status tag and the first five change lines, each after two spaces.
  No more than five lines of a record are included: the prompt is the same when every
  record is cut to its first five change lines.
\<close>

theorem prompt_renders_each_diff:
  assumes "d \<in> set gitDiffs"
  shows "sublist
           (str ''File: '' @ file d @ str '' (+'' @ Number_toString (additions d) @ str ''/-'' @
            Number_toString (deletions d) @ str '')\<newline>Status: '' @ status_string (status d) @
            str ''\<newline>Key changes:\<newline>  '' @
            join (str ''\<newline>  '') (take 5 (changes d)))
           (buildPrompt gitDiffs config recentCommits branchName) \<and>
         length (take 5 (changes d)) \<le> 5 \<and>
         buildPrompt (map (\<lambda>d. d\<lparr>changes := take 5 (changes d)\<rparr>) gitDiffs)
           config recentCommits branchName =
         buildPrompt gitDiffs config recentCommits branchName"
proof -
  have a: "sublist
           (str ''File: '' @ file d @ str '' (+'' @ Number_toString (additions d) @ str ''/-'' @
            Number_toString (deletions d) @ str '')\<newline>Status: '' @ status_string (status d) @
            str ''\<newline>Key changes:\<newline>  '' @
            join (str ''\<newline>  '') (take 5 (changes d)))
           (buildPrompt gitDiffs config recentCommits branchName)"
    using sublist_describeChange [OF assms, of config recentCommits branchName]
    by (simp only: describeChange_spelled_out)
  have b: "length (take 5 (changes d)) \<le> 5"
    by simp
  show ?thesis
    by (rule conjI [OF a conjI [OF b buildPrompt_truncated]])
qed

theorem prompt_renders_each_diff_witness:
  "sublist
     (str ''File: src/a.ts (+12/-3)\<newline>Status: modified\<newline>Key changes:\<newline>  +1\<newline>  +2\<newline>  +3\<newline>  +4\<newline>  +5'')
     (buildPrompt [example_diff] example_config [] (str ''main''))"
proof -
  have m: "example_diff \<in> set [example_diff]" by simp
  have "sublist
     (str ''File: '' @ file example_diff @ str '' (+'' @ Number_toString (additions example_diff) @
     str ''/-'' @ Number_toString (deletions example_diff) @ str '')\<newline>Status: '' @
     status_string (status example_diff) @ str ''\<newline>Key changes:\<newline>  '' @
     join (str ''\<newline>  '') (take 5 (changes example_diff)))
     (buildPrompt [example_diff] example_config [] (str ''main''))"
    by (rule prompt_renders_each_diff [OF m, THEN conjunct1])
  then show ?thesis
    by (simp only: example_rendering)
qed

text \<open>
  C7. With an empty list of recent commits nothing stands between the branch line and
  the heading of the changes: the heading \<^verbatim>\<open>Recent commits for context:\<close> is not
  emitted. With a non-empty list the block of the heading and the first five entries,
  in their order, each after \<^verbatim>\<open>- \<close>, stands there, and the rest of the prompt is the
  same; entries after the fifth do not matter. On the example arguments the text of
  the heading occurs nowhere in the prompt.
\<close>

theorem recent_commits_block:
  "buildPrompt gitDiffs config [] branchName =
     prompt_intro @ branchName @ str ''\<newline>'' @
     str ''\<newline>\<newline>CHANGES TO COMMIT:\<newline>'' @ prompt_rest gitDiffs config \<and>
   (recentCommits \<noteq> [] \<longrightarrow>
      buildPrompt gitDiffs config recentCommits branchName =
        prompt_intro @ branchName @ str ''\<newline>'' @
        str ''Recent commits for context:\<newline>'' @
        join (str ''\<newline>'') (map (\<lambda>c. str ''- '' @ c) (take 5 recentCommits)) @
        str ''\<newline>\<newline>'' @
        str ''\<newline>\<newline>CHANGES TO COMMIT:\<newline>'' @ prompt_rest gitDiffs config) \<and>
   buildPrompt gitDiffs config recentCommits branchName =
     buildPrompt gitDiffs config (take 5 recentCommits) branchName \<and>
   \<not> sublist (str ''Recent commits for context:'')
       (buildPrompt [example_diff] example_config [] (str ''main''))"
proof (intro conjI impI)
  show "buildPrompt gitDiffs config [] branchName =
     prompt_intro @ branchName @ str ''\<newline>'' @
     str ''\<newline>\<newline>CHANGES TO COMMIT:\<newline>'' @ prompt_rest gitDiffs config"
    by (rule buildPrompt_no_commits)
  show "buildPrompt gitDiffs config recentCommits branchName =
     buildPrompt gitDiffs config (take 5 recentCommits) branchName"
    by (rule buildPrompt_take [symmetric])
  show "\<not> sublist (str ''Recent commits for context:'')
       (buildPrompt [example_diff] example_config [] (str ''main''))"
    by (rule heading_absent_example)
next
  assume "recentCommits \<noteq> []"
  then show "buildPrompt gitDiffs config recentCommits branchName =
        prompt_intro @ branchName @ str ''\<newline>'' @
        str ''Recent commits for context:\<newline>'' @
        join (str ''\<newline>'') (map (\<lambda>c. str ''- '' @ c) (take 5 recentCommits)) @
        str ''\<newline>\<newline>'' @
        str ''\<newline>\<newline>CHANGES TO COMMIT:\<newline>'' @ prompt_rest gitDiffs config"
    by (rule buildPrompt_commits)
qed

theorem recent_commits_block_witness:
  "buildPrompt [example_diff] example_config example_commits (str ''main'') =
     prompt_intro @ str ''main'' @ str ''\<newline>'' @
     str ''Recent commits for context:\<newline>'' @
     str ''- one\<newline>- two\<newline>- three\<newline>- four\<newline>- five'' @
     str ''\<newline>\<newline>'' @
     str ''\<newline>\<newline>CHANGES TO COMMIT:\<newline>'' @
     prompt_rest [example_diff] example_config"
proof -
  have n: "example_commits \<noteq> []"
    by (simp add: example_commits_def)
  have "buildPrompt [example_diff] example_config example_commits (str ''main'') =
        prompt_intro @ str ''main'' @ str ''\<newline>'' @
        str ''Recent commits for context:\<newline>'' @
        join (str ''\<newline>'') (map (\<lambda>c. str ''- '' @ c) (take 5 example_commits)) @
        str ''\<newline>\<newline>'' @
        str ''\<newline>\<newline>CHANGES TO COMMIT:\<newline>'' @
        prompt_rest [example_diff] example_config"
    by (rule recent_commits_block [THEN conjunct2, THEN conjunct1, THEN mp, OF n])
  then show ?thesis
    by (simp only: example_commit_lines)
qed

text \<open>
  C9, as stated, fails: the structured path copies what the response holds. For an
  element without a \<^verbatim>\<open>message\<close> and with \<^verbatim>\<open>"confidence":150\<close> the suggestion has the
  empty string as message and \<^verbatim>\<open>150\<close> as confidence.
\<close>

theorem suggestion_invariant_counterexample:
  \<open>parseResponse (str ''{"suggestions":[{"confidence":150}]}'') =
     Inr [\<lparr>message = JString [], confidence = JNumber (Finite 150),
           reasoning = JString (str ''No reasoning provided'')\<rparr>] \<and>
   \<not> nonempty_string (JString []) \<and>
   \<not> percent_int (JNumber (Finite 150)) \<and>
   \<not> valid_suggestion \<lparr>message = JString [], confidence = JNumber (Finite 150),
        reasoning = JString (str ''No reasoning provided'')\<rparr>\<close>
  using response_confidence_150 by (simp add: valid_suggestion_def)

text \<open>
  C9, amended. Every suggestion returned on the fallback path has a non-empty string
  as message and confidence \<^verbatim>\<open>70\<close>, so it is valid in the sense of the data model. On
  the structured path the suggestions are those of the elements of the \<^verbatim>\<open>suggestions\<close>
  array of the parsed response, in order: each has as message the \<^verbatim>\<open>message\<close> of its
  element or, where that is missing or falsy, the empty string, and as confidence the
  \<^verbatim>\<open>confidence\<close> of its element or, where that is missing or falsy, \<^verbatim>\<open>50\<close>. So the
  message is the empty string or a truthy value, the confidence is a truthy value,
  and neither is checked further.
\<close>

theorem suggestion_fields_by_path:
  assumes "parseResponse response = Inr ss" and "s \<in> set ss"
  shows "((\<forall>ss'. try_block response \<noteq> Inr (Some ss')) \<longrightarrow>
            nonempty_string (message s) \<and> confidence s = JNumber (Finite 70) \<and>
            valid_suggestion s) \<and>
         ((\<exists>ss'. try_block response = Inr (Some ss')) \<longrightarrow>
            (\<exists>parsed es e.
                 JSON_parse (cleanResponse response) = Inr parsed \<and>
                 member_of parsed (str ''suggestions'') = Some (JArray es) \<and>
                 ss = map suggestion_of es \<and> e \<in> set es \<and>
                 message s = js_or (member_of e (str ''message'')) (JString []) \<and>
                 confidence s = js_or (member_of e (str ''confidence'')) (JNumber (Finite 50))) \<and>
            (message s = JString [] \<or> truthy (message s)) \<and>
            truthy (confidence s))"
proof (intro conjI impI)
  assume "\<forall>ss'. try_block response \<noteq> Inr (Some ss')"
  with response_by_path [OF assms] obtain line where
    l: "nonblank line" "s = extracted line" by blast
  then show "nonempty_string (message s)" "confidence s = JNumber (Finite 70)"
    "valid_suggestion s"
    by (simp_all add: extracted_def nonblank_def valid_suggestion_def)
next
  assume t: "\<exists>ss'. try_block response = Inr (Some ss')"
  from structured_suggestion [OF assms t] obtain parsed es e where
    a: "JSON_parse (cleanResponse response) = Inr parsed" and
    b: "member_of parsed (str ''suggestions'') = Some (JArray es)" and
    c: "ss = map suggestion_of es" and d: "e \<in> set es" and e: "s = suggestion_of e"
    by blast
  from e have f: "message s = js_or (member_of e (str ''message'')) (JString [])"
    by (simp only: message_suggestion_of)
  from e have g: "confidence s =
      js_or (member_of e (str ''confidence'')) (JNumber (Finite 50))"
    by (simp only: confidence_suggestion_of)
  from a b c d f g
  show "\<exists>parsed es e.
                 JSON_parse (cleanResponse response) = Inr parsed \<and>
                 member_of parsed (str ''suggestions'') = Some (JArray es) \<and>
                 ss = map suggestion_of es \<and> e \<in> set es \<and>
                 message s = js_or (member_of e (str ''message'')) (JString []) \<and>
                 confidence s = js_or (member_of e (str ''confidence'')) (JNumber (Finite 50))"
    by (intro exI [where x = parsed] exI [where x = es] exI [where x = e] conjI)
  from e show "message s = JString [] \<or> truthy (message s)"
    by (simp only: message_suggestion_of_cases)
  from e show "truthy (confidence s)"
    by (simp only: truthy_confidence_suggestion_of)
qed

theorem suggestion_fields_by_path_witness:
  \<open>nonempty_string (message (extracted (str ''b:2''))) \<and>
   confidence (extracted (str ''b:2'')) = JNumber (Finite 70) \<and>
   valid_suggestion (extracted (str ''b:2'')) \<and>
   (\<exists>parsed es e.
       JSON_parse (cleanResponse (str ''{"suggestions":[{"confidence":150}]}'')) = Inr parsed \<and>
       member_of parsed (str ''suggestions'') = Some (JArray es) \<and>
       [\<lparr>message = JString [], confidence = JNumber (Finite 150),
         reasoning = JString (str ''No reasoning provided'')\<rparr>] = map suggestion_of es \<and>
       e \<in> set es \<and>
       message \<lparr>message = JString [], confidence = JNumber (Finite 150),
         reasoning = JString (str ''No reasoning provided'')\<rparr> =
         js_or (member_of e (str ''message'')) (JString []) \<and>
       confidence \<lparr>message = JString [], confidence = JNumber (Finite 150),
         reasoning = JString (str ''No reasoning provided'')\<rparr> =
         js_or (member_of e (str ''confidence'')) (JNumber (Finite 50))) \<and>
   truthy (confidence \<lparr>message = JString [], confidence = JNumber (Finite 150),
         reasoning = JString (str ''No reasoning provided'')\<rparr>)\<close>
proof -
  have n: \<open>\<forall>ss. try_block (str ''a:1\<newline>b:2\<newline>c:3\<newline>d:4'') \<noteq> Inr (Some ss)\<close>
    by (rule not_structured_of_error [OF parse_four_lines])
  have m: \<open>extracted (str ''b:2'') \<in>
      set [extracted (str ''a:1''), extracted (str ''b:2''), extracted (str ''c:3'')]\<close>
    by simp
  note f = suggestion_fields_by_path [OF response_four_lines m, THEN conjunct1, THEN mp, OF n]
  have t: \<open>\<exists>ss'. try_block (str ''{"suggestions":[{"confidence":150}]}'') = Inr (Some ss')\<close>
    using structured_confidence_150 by (rule exI)
  have k: \<open>\<lparr>message = JString [], confidence = JNumber (Finite 150),
         reasoning = JString (str ''No reasoning provided'')\<rparr> \<in>
      set [\<lparr>message = JString [], confidence = JNumber (Finite 150),
         reasoning = JString (str ''No reasoning provided'')\<rparr>]\<close>
    by simp
  note g = suggestion_fields_by_path [OF response_confidence_150 k, THEN conjunct2, THEN mp, OF t]
  show ?thesis
    by (rule conjI [OF f [THEN conjunct1]
          conjI [OF f [THEN conjunct2, THEN conjunct1]
            conjI [OF f [THEN conjunct2, THEN conjunct2]
              conjI [OF g [THEN conjunct1] g [THEN conjunct2, THEN conjunct2]]]]])
qed

text \<open>
  C10, as stated, fails: a reasoning that is truthy is kept whatever it is, and an
  empty array is truthy. For an element with \<^verbatim>\<open>"reasoning":[]\<close> the suggestion has the
  empty array as reasoning, which is no non-empty string.
\<close>

theorem rationale_empty_counterexample:
  \<open>parseResponse (str ''{"suggestions":[{"reasoning":[]}]}'') =
     Inr [\<lparr>message = JString [], confidence = JNumber (Finite 50), reasoning = JArray []\<rparr>] \<and>
   truthy (JArray []) \<and>
   \<not> nonempty_string (JArray [])\<close>
  using response_reasoning_array by simp

text \<open>
  C10, amended. The reasoning of every suggestion returned is truthy, and so never the
  empty string. On the fallback path it is \<^verbatim>\<open>"Extracted from AI response"\<close>. On the
  structured path the suggestions are those of the elements of the \<^verbatim>\<open>suggestions\<close>
  array of the parsed response, and the reasoning of each is the \<^verbatim>\<open>reasoning\<close> of its
  element where that is truthy, of whatever type, and \<^verbatim>\<open>"No reasoning provided"\<close> where
  it is missing or falsy, the empty string included.
\<close>

theorem rationale_truthy_by_path:
  assumes "parseResponse response = Inr ss" and "s \<in> set ss"
  shows "reasoning s \<noteq> JString [] \<and> truthy (reasoning s) \<and>
     ((\<forall>ss'. try_block response \<noteq> Inr (Some ss')) \<longrightarrow>
        reasoning s = JString (str ''Extracted from AI response'')) \<and>
     ((\<exists>ss'. try_block response = Inr (Some ss')) \<longrightarrow>
        (\<exists>parsed es e.
           JSON_parse (cleanResponse response) = Inr parsed \<and>
           member_of parsed (str ''suggestions'') = Some (JArray es) \<and>
           ss = map suggestion_of es \<and> e \<in> set es \<and>
           reasoning s =
             (case member_of e (str ''reasoning'') of
                None \<Rightarrow> JString (str ''No reasoning provided'')
              | Some v \<Rightarrow> if truthy v then v else JString (str ''No reasoning provided''))))"
proof (intro conjI impI)
  show "truthy (reasoning s)"
    by (rule rationale_truthy [OF assms])
  then show "reasoning s \<noteq> JString []"
    by (rule truthy_not_empty)
next
  assume "\<forall>ss'. try_block response \<noteq> Inr (Some ss')"
  with assms show "reasoning s = JString (str ''Extracted from AI response'')"
    by (rule rationale_fallback)
next
  assume "\<exists>ss'. try_block response = Inr (Some ss')"
  with assms show "\<exists>parsed es e.
           JSON_parse (cleanResponse response) = Inr parsed \<and>
           member_of parsed (str ''suggestions'') = Some (JArray es) \<and>
           ss = map suggestion_of es \<and> e \<in> set es \<and>
           reasoning s =
             (case member_of e (str ''reasoning'') of
                None \<Rightarrow> JString (str ''No reasoning provided'')
              | Some v \<Rightarrow> if truthy v then v else JString (str ''No reasoning provided''))"
    by (rule rationale_structured_tied)
qed

theorem rationale_truthy_by_path_witness:
  \<open>reasoning \<lparr>message = JString (str ''m''), confidence = JNumber (Finite 50),
       reasoning = JString (str ''No reasoning provided'')\<rparr> \<noteq> JString [] \<and>
   truthy (reasoning \<lparr>message = JString (str ''m''), confidence = JNumber (Finite 50),
       reasoning = JString (str ''No reasoning provided'')\<rparr>) \<and>
   (\<exists>parsed es e.
       JSON_parse (cleanResponse
         (str ''{"suggestions":[{"message":"m","confidence":0,"reasoning":""},true]}'')) =
         Inr parsed \<and>
       member_of parsed (str ''suggestions'') = Some (JArray es) \<and>
       [\<lparr>message = JString (str ''m''), confidence = JNumber (Finite 50),
         reasoning = JString (str ''No reasoning provided'')\<rparr>,
        \<lparr>message = JString [], confidence = JNumber (Finite 50),
         reasoning = JString (str ''No reasoning provided'')\<rparr>] = map suggestion_of es \<and>
       e \<in> set es \<and>
       reasoning \<lparr>message = JString (str ''m''), confidence = JNumber (Finite 50),
         reasoning = JString (str ''No reasoning provided'')\<rparr> =
         (case member_of e (str ''reasoning'') of
            None \<Rightarrow> JString (str ''No reasoning provided'')
          | Some v \<Rightarrow> if truthy v then v else JString (str ''No reasoning provided''))) \<and>
   reasoning (extracted (str ''b:2'')) = JString (str ''Extracted from AI response'')\<close>
proof -
  have t: \<open>\<exists>ss'. try_block
      (str ''{"suggestions":[{"message":"m","confidence":0,"reasoning":""},true]}'') =
      Inr (Some ss')\<close>
    using structured_falsy_fields by (rule exI)
  have k: \<open>\<lparr>message = JString (str ''m''), confidence = JNumber (Finite 50),
         reasoning = JString (str ''No reasoning provided'')\<rparr> \<in>
      set [\<lparr>message = JString (str ''m''), confidence = JNumber (Finite 50),
         reasoning = JString (str ''No reasoning provided'')\<rparr>,
        \<lparr>message = JString [], confidence = JNumber (Finite 50),
         reasoning = JString (str ''No reasoning provided'')\<rparr>]\<close>
    by simp
  note g = rationale_truthy_by_path [OF response_falsy_fields k]
  have n: \<open>\<forall>ss. try_block (str ''a:1\<newline>b:2\<newline>c:3\<newline>d:4'') \<noteq> Inr (Some ss)\<close>
    by (rule not_structured_of_error [OF parse_four_lines])
  have m: \<open>extracted (str ''b:2'') \<in>
      set [extracted (str ''a:1''), extracted (str ''b:2''), extracted (str ''c:3'')]\<close>
    by simp
  note f = rationale_truthy_by_path [OF response_four_lines m]
  show ?thesis
    by (rule conjI [OF g [THEN conjunct1]
          conjI [OF g [THEN conjunct2, THEN conjunct1]
            conjI [OF g [THEN conjunct2, THEN conjunct2, THEN conjunct2, THEN mp, OF t]
              f [THEN conjunct2, THEN conjunct2, THEN conjunct1, THEN mp, OF n]]]])
qed

end
